theory Spec2Isabelle
  imports Complex_Main
begin

section \<open>Values, documents and Python primitives\<close>

text \<open>
  The backend (\<^verbatim>\<open>src/app/main_enhanced.py\<close>) and the ingestion script
  (\<^verbatim>\<open>src/test_ingestion.py\<close>) work on schema-free MongoDB documents, which PyMongo
  hands to Python as dictionaries. A document is a map from field names to values; a field
  that is stored with the value null is present (\<open>Some VNone\<close>), a field that is not
  stored is absent (\<open>None\<close>): Python's \<^verbatim>\<open>"k" in book\<close> tells the two apart, and so
  does the model. Numbers are rationals (every finite integer or double is one).
\<close>

datatype oid = Oid string

datatype val =
    VNone
  | VBool bool
  | VNum rat
  | VStr string
  | VOid oid
  | VDate int
  | VList "val list"
  | VDict "(string \<times> val) list"

type_synonym doc = "string \<rightharpoonup> val"

type_synonym collection = "doc list"

text \<open>
  Every \<^verbatim>\<open>raise\<close> of the source and every exception of a library call that the source
  can trigger is a value. \<open>HTTPException\<close> carries the status code and the detail string.
\<close>

datatype error =
    HTTPException nat string
  | KeyError string
  | TypeError
  | AttributeError
  | IndexError
  | InvalidId
  | ExpiredSignatureError
  | InvalidTokenError
  | DuplicateKeyError
  | OperationFailure
  | ReadError string
  | UnicodeEncodeError

text \<open>Python truthiness (\<^verbatim>\<open>if x:\<close>, \<^verbatim>\<open>a if x else b\<close>).\<close>

fun py_bool :: "val \<Rightarrow> bool" where
  "py_bool VNone = False"
| "py_bool (VBool b) = b"
| "py_bool (VNum n) = (n \<noteq> 0)"
| "py_bool (VStr s) = (s \<noteq> [])"
| "py_bool (VOid i) = True"
| "py_bool (VDate t) = True"
| "py_bool (VList xs) = (xs \<noteq> [])"
| "py_bool (VDict kvs) = (kvs \<noteq> [])"

text \<open>
  \<^verbatim>\<open>str(x)\<close>. A string is returned as it is, an ObjectId prints the hexadecimal digits
  of its bytes, \<^verbatim>\<open>None\<close> prints as \<^verbatim>\<open>None\<close>. How the Python runtime prints the remaining values
  (floats, containers, dates) is taken as the parameter \<open>repr\<close>.
\<close>

fun str_oid :: "oid \<Rightarrow> string" where
  "str_oid (Oid h) = h"

fun py_str :: "(val \<Rightarrow> string) \<Rightarrow> val \<Rightarrow> string" where
  "py_str repr (VStr s) = s"
| "py_str repr (VOid i) = str_oid i"
| "py_str repr VNone = ''None''"
| "py_str repr v = repr v"

text \<open>\<^verbatim>\<open>d.get(k, default)\<close>.\<close>

definition dict_get :: "doc \<Rightarrow> string \<Rightarrow> val \<Rightarrow> val" where
  "dict_get d k dflt = (case d k of None \<Rightarrow> dflt | Some v \<Rightarrow> v)"

text \<open>
  \<^verbatim>\<open>x[0]\<close>: the first element of a list, the first character of a string (IndexError when
  empty); a dictionary of a document has string keys, so the key \<^verbatim>\<open>0\<close> is never found;
  every other value is not subscriptable.
\<close>

fun subscript0 :: "val \<Rightarrow> error + val" where
  "subscript0 (VList []) = Inl IndexError"
| "subscript0 (VList (x # xs)) = Inr x"
| "subscript0 (VStr []) = Inl IndexError"
| "subscript0 (VStr (c # cs)) = Inr (VStr [c])"
| "subscript0 (VDict kvs) = Inl (KeyError ''0'')"
| "subscript0 v = Inl TypeError"

text \<open>
  \<^verbatim>\<open>bson.ObjectId(s)\<close> for a string \<open>s\<close>: a string of 24 characters that
  \<^verbatim>\<open>bytes.fromhex\<close> accepts, anything else raises \<^verbatim>\<open>InvalidId\<close>.
  \<^verbatim>\<open>bytes.fromhex\<close> (Python 3.7 and later) reads pairs of hexadecimal digits and skips
  ASCII white space around the pairs (not inside one), so 24 characters give twelve bytes when all are digits and fewer
  when some are white space. The id is kept as the digits of its bytes, in the lower case
  that \<^verbatim>\<open>str\<close> prints: ObjectIds compare by their bytes.
\<close>

definition hex_digit :: "char \<Rightarrow> bool" where
  "hex_digit c = (c \<in> set ''0123456789abcdefABCDEF'')"

definition lower_hex :: "char \<Rightarrow> char" where
  "lower_hex c =
     (if c = CHR ''A'' then CHR ''a'' else if c = CHR ''B'' then CHR ''b''
      else if c = CHR ''C'' then CHR ''c'' else if c = CHR ''D'' then CHR ''d''
      else if c = CHR ''E'' then CHR ''e'' else if c = CHR ''F'' then CHR ''f'' else c)"

definition hex_space :: "char \<Rightarrow> bool" where
  "hex_space c = (c \<in> set [CHR '' '', CHR 0x09, CHR 0x0A, CHR 0x0B, CHR 0x0C, CHR 0x0D])"

fun fromhex :: "string \<Rightarrow> string option" where
  "fromhex [] = Some []"
| "fromhex [c] = (if hex_space c then Some [] else None)"
| "fromhex (c # d # cs) =
     (if hex_space c then fromhex (d # cs)
      else if hex_digit c \<and> hex_digit d
      then map_option (\<lambda>h. lower_hex c # lower_hex d # h) (fromhex cs)
      else None)"

definition ObjectId :: "string \<Rightarrow> error + oid" where
  "ObjectId s =
     (if length s = 24
      then (case fromhex s of None \<Rightarrow> Inl InvalidId | Some h \<Rightarrow> Inr (Oid h))
      else Inl InvalidId)"

text \<open>A well-formed ObjectId value, of twelve bytes: what the driver generates.\<close>

definition wf_oid :: "oid \<Rightarrow> bool" where
  "wf_oid i = (length (str_oid i) = 24 \<and> list_all (\<lambda>c. c \<in> set ''0123456789abcdef'') (str_oid i))"

text \<open>
  The source builds an ObjectId from a string only to ask for a document by its id:
  \<^verbatim>\<open>{"_id": ObjectId(s)}\<close>. The driver's encoder writes twelve bytes for the id. For an id
  of twelve bytes these are the id itself. What the query asks for in place of a shorter
  id (the encoder of the C extension reads twelve bytes from its buffer, the one written
  in Python sends a document that the server refuses) is outside the source: it is the
  parameter \<open>short\<close>, the id asked for or the exception of the query.
\<close>

type_synonym short_ids = "oid \<Rightarrow> error + oid"

definition wire :: "short_ids \<Rightarrow> oid \<Rightarrow> error + oid" where
  "wire short i = (if length (str_oid i) = 24 then Inr i else short i)"

definition id_filter :: "short_ids \<Rightarrow> string \<Rightarrow> error + oid" where
  "id_filter short s = (case ObjectId s of Inl e \<Rightarrow> Inl e | Inr i \<Rightarrow> wire short i)"

section \<open>The document store\<close>

text \<open>
  A collection is the list of its documents in insertion order. Only the operations and
  query operators that the source uses are modelled:
  \<^verbatim>\<open>find_one({"_id": i})\<close>, \<^verbatim>\<open>find_one({"email": e})\<close>, \<^verbatim>\<open>find(query).limit(n)\<close>
  with equality, \<^verbatim>\<open>$regex\<close>, \<^verbatim>\<open>$gte\<close>/\<^verbatim>\<open>$lte\<close> and a one-level \<^verbatim>\<open>$or\<close>,
  \<^verbatim>\<open>insert_one\<close>, \<^verbatim>\<open>update_one\<close> with \<^verbatim>\<open>$set\<close> and \<^verbatim>\<open>delete_one\<close>.
  The regular-expression engine belongs to the database: \<open>rx pattern options\<close> is the
  compiled matcher, or \<open>None\<close> when the pattern does not compile (the query then fails).
  An operator is tried on the stored value and, when that value is an array, on each of its
  elements; the operators of one field are matched one by one, so different elements of an
  array may meet different operators. A comparison with a number matches numbers only
  (MongoDB compares within a type bracket), equality with a string and a regular expression
  match strings only; an absent field matches none of them.
\<close>

datatype filter =
    Eq string
  | Regex string string
  | Cmp rat "rat option"

datatype clause =
    Field string filter
  | Or "(string \<times> filter) list"

type_synonym query = "clause list"

type_synonym regex_engine = "string \<Rightarrow> string \<Rightarrow> (string \<Rightarrow> bool) option"

fun filter_ok :: "regex_engine \<Rightarrow> filter \<Rightarrow> bool" where
  "filter_ok rx (Regex p opts) = (rx p opts \<noteq> None)"
| "filter_ok rx f = True"

fun clause_ok :: "regex_engine \<Rightarrow> clause \<Rightarrow> bool" where
  "clause_ok rx (Field k f) = filter_ok rx f"
| "clause_ok rx (Or kfs) = list_all (\<lambda>kf. filter_ok rx (snd kf)) kfs"

fun candidates :: "val \<Rightarrow> val list" where
  "candidates (VList xs) = VList xs # xs"
| "candidates v = [v]"

fun str_where :: "(string \<Rightarrow> bool) \<Rightarrow> val \<Rightarrow> bool" where
  "str_where P (VStr s) = P s"
| "str_where P v = False"

fun num_where :: "(rat \<Rightarrow> bool) \<Rightarrow> val \<Rightarrow> bool" where
  "num_where P (VNum n) = P n"
| "num_where P v = False"

definition some_str :: "(string \<Rightarrow> bool) \<Rightarrow> val option \<Rightarrow> bool" where
  "some_str P x = (case x of None \<Rightarrow> False | Some v \<Rightarrow> list_ex (str_where P) (candidates v))"

definition some_num :: "(rat \<Rightarrow> bool) \<Rightarrow> val option \<Rightarrow> bool" where
  "some_num P x = (case x of None \<Rightarrow> False | Some v \<Rightarrow> list_ex (num_where P) (candidates v))"

text \<open>
  \<open>Eq s\<close> is \<^verbatim>\<open>{field: s}\<close>, \<open>Regex p opts\<close> is \<^verbatim>\<open>{"$regex": p, "$options": opts}\<close>,
  \<open>Cmp lo (Some hi)\<close> is \<^verbatim>\<open>{"$gte": lo, "$lte": hi}\<close> and \<open>Cmp lo None\<close> is
  \<^verbatim>\<open>{"$gte": lo}\<close>.
\<close>

fun filter_matches :: "regex_engine \<Rightarrow> filter \<Rightarrow> val option \<Rightarrow> bool" where
  "filter_matches rx (Eq s) x = some_str (\<lambda>t. t = s) x"
| "filter_matches rx (Regex p opts) x =
     (case rx p opts of None \<Rightarrow> False | Some m \<Rightarrow> some_str m x)"
| "filter_matches rx (Cmp lo hi) x =
     (some_num (\<lambda>n. lo \<le> n) x \<and>
      (case hi of None \<Rightarrow> True | Some h \<Rightarrow> some_num (\<lambda>n. n \<le> h) x))"

fun clause_matches :: "regex_engine \<Rightarrow> doc \<Rightarrow> clause \<Rightarrow> bool" where
  "clause_matches rx d (Field k f) = filter_matches rx f (d k)"
| "clause_matches rx d (Or kfs) = list_ex (\<lambda>kf. filter_matches rx (snd kf) (d (fst kf))) kfs"

definition find_docs :: "regex_engine \<Rightarrow> collection \<Rightarrow> query \<Rightarrow> error + doc list" where
  "find_docs rx coll q =
     (if list_all (clause_ok rx) q
      then Inr (filter (\<lambda>d. list_all (clause_matches rx d) q) coll)
      else Inl OperationFailure)"

text \<open>\<^verbatim>\<open>cursor.limit(n)\<close>: 0 is no limit, a negative limit is its absolute value.\<close>

definition limit_docs :: "int \<Rightarrow> doc list \<Rightarrow> doc list" where
  "limit_docs n ds = (if n = 0 then ds else take (nat \<bar>n\<bar>) ds)"

definition find_one_id :: "collection \<Rightarrow> oid \<Rightarrow> doc option" where
  "find_one_id coll i = find (\<lambda>d. d ''_id'' = Some (VOid i)) coll"

definition find_one_email :: "collection \<Rightarrow> string \<Rightarrow> doc option" where
  "find_one_email coll e = find (\<lambda>d. some_str (\<lambda>t. t = e) (d ''email'')) coll"

text \<open>
  \<^verbatim>\<open>insert_one(d)\<close>: the driver generates the ObjectId \<open>new_id\<close> (an input of the model),
  stores the document under it and returns it as \<^verbatim>\<open>inserted_id\<close>; an id that is already
  in the collection is refused.
\<close>

definition insert_one :: "collection \<Rightarrow> oid \<Rightarrow> doc \<Rightarrow> error + collection" where
  "insert_one coll new_id d =
     (if find_one_id coll new_id \<noteq> None then Inl DuplicateKeyError
      else Inr (coll @ [d(''_id'' \<mapsto> VOid new_id)]))"

text \<open>\<^verbatim>\<open>update_one({"_id": i}, {"$set": upd})\<close>: the first match gets the fields of \<open>upd\<close>.\<close>

fun update_one :: "collection \<Rightarrow> oid \<Rightarrow> doc \<Rightarrow> collection" where
  "update_one [] i upd = []"
| "update_one (d # ds) i upd =
     (if d ''_id'' = Some (VOid i) then (d ++ upd) # ds else d # update_one ds i upd)"

text \<open>\<^verbatim>\<open>delete_one({"_id": i})\<close>: the first match is removed.\<close>

fun delete_one :: "collection \<Rightarrow> oid \<Rightarrow> collection" where
  "delete_one [] i = []"
| "delete_one (d # ds) i =
     (if d ''_id'' = Some (VOid i) then ds else d # delete_one ds i)"

text \<open>A \<^verbatim>\<open>for\<close> loop over a list whose body may raise: the first exception ends it.\<close>

fun for_each :: "('a \<Rightarrow> error + 'b) \<Rightarrow> 'a list \<Rightarrow> error + 'b list" where
  "for_each f [] = Inr []"
| "for_each f (x # xs) =
     (case f x of Inl e \<Rightarrow> Inl e
      | Inr y \<Rightarrow> (case for_each f xs of Inl e \<Rightarrow> Inl e | Inr ys \<Rightarrow> Inr (y # ys)))"

section \<open>Listing service: search and getById\<close>

text \<open>An exception ends the function: the rest runs only on a value.\<close>

definition and_then :: "error + 'a \<Rightarrow> ('a \<Rightarrow> error + 'b) \<Rightarrow> error + 'b" where
  "and_then r f = (case r of Inl e \<Rightarrow> Inl e | Inr x \<Rightarrow> f x)"

text \<open>
  The image step, the same statement on both paths (lines 199 to 200 and 216 to 217):
  \<^verbatim>\<open>if "image" not in book and "images" in book:
      book["image"] = book["images"][0] if book["images"] else None\<close>
\<close>

definition map_image :: "doc \<Rightarrow> error + doc" where
  "map_image book =
     (case book ''images'' of
        None \<Rightarrow> Inr book
      | Some imgs \<Rightarrow>
         (if book ''image'' = None
          then (if py_bool imgs
                then (case subscript0 imgs of
                        Inl e \<Rightarrow> Inl e
                      | Inr x \<Rightarrow> Inr (book(''image'' \<mapsto> x)))
                else Inr (book(''image'' \<mapsto> VNone)))
          else Inr book))"

text \<open>
  The title step of \<^verbatim>\<open>get_books\<close> (lines 193 to 194) asks for the legacy field in its
  guard; the one of \<^verbatim>\<open>get_book\<close> (lines 212 to 213) does not.
\<close>

definition map_title_search :: "doc \<Rightarrow> doc" where
  "map_title_search book =
     (if book ''title'' = None \<and> book ''Book Name'' \<noteq> None
      then book(''title'' \<mapsto> dict_get book ''Book Name'' (VStr ''Untitled''))
      else book)"

definition map_title_by_id :: "doc \<Rightarrow> doc" where
  "map_title_by_id book =
     (if book ''title'' = None
      then book(''title'' \<mapsto> dict_get book ''Book Name'' (VStr ''Untitled''))
      else book)"

text \<open>The author step, the same statement on both paths (lines 195 to 196, 214 to 215).\<close>

definition map_author :: "doc \<Rightarrow> doc" where
  "map_author book =
     (if book ''author'' = None
      then book(''author'' \<mapsto> dict_get book ''Publisher'' (VStr ''Unknown''))
      else book)"

text \<open>The price step (lines 197 to 198), which only \<^verbatim>\<open>get_books\<close> has.\<close>

definition map_price :: "doc \<Rightarrow> doc" where
  "map_price book =
     (if book ''price'' = None
      then book(''price'' \<mapsto> dict_get book ''Price'' (VNum 0))
      else book)"

text \<open>
  The schema mapping of \<^verbatim>\<open>get_books\<close> (lines 192 to 200, "Map old schema to new
  schema") and the one of \<^verbatim>\<open>get_book\<close> (lines 211 to 217, "Map old schema").
\<close>

definition normalize_search :: "doc \<Rightarrow> error + doc" where
  "normalize_search book = map_image (map_price (map_author (map_title_search book)))"

definition normalize_by_id :: "doc \<Rightarrow> error + doc" where
  "normalize_by_id book = map_image (map_author (map_title_by_id book))"

text \<open>\<^verbatim>\<open>book["_id"] = str(book["_id"])\<close>, the first statement on both paths.\<close>

definition str_id :: "(val \<Rightarrow> string) \<Rightarrow> doc \<Rightarrow> error + doc" where
  "str_id repr book =
     (case book ''_id'' of
        None \<Rightarrow> Inl (KeyError ''_id'')
      | Some i \<Rightarrow> Inr (book(''_id'' \<mapsto> VStr (py_str repr i))))"

text \<open>The body of the loop of \<^verbatim>\<open>get_books\<close> (lines 190 to 200).\<close>

definition get_books_body :: "(val \<Rightarrow> string) \<Rightarrow> doc \<Rightarrow> error + doc" where
  "get_books_body repr book = and_then (str_id repr book) normalize_search"

text \<open>A document in the canonical schema: the four canonical fields are there.\<close>

definition canonical :: "doc \<Rightarrow> bool" where
  "canonical book =
     (book ''title'' \<noteq> None \<and> book ''author'' \<noteq> None \<and> book ''price'' \<noteq> None \<and>
      book ''image'' \<noteq> None)"

text \<open>The statements of \<^verbatim>\<open>get_book\<close> on the document it found (lines 210 to 218).\<close>

definition get_book_body :: "(val \<Rightarrow> string) \<Rightarrow> doc \<Rightarrow> error + doc" where
  "get_book_body repr book = and_then (str_id repr book) normalize_by_id"

text \<open>The query that \<^verbatim>\<open>get_books\<close> builds from its parameters (lines 165 to 187).\<close>

definition price_clauses :: "string \<Rightarrow> query" where
  "price_clauses priceRange =
     (if priceRange = ''0-20'' then [Field ''price'' (Cmp 0 (Some 20))]
      else if priceRange = ''20-50'' then [Field ''price'' (Cmp 20 (Some 50))]
      else if priceRange = ''50-100'' then [Field ''price'' (Cmp 50 (Some 100))]
      else if priceRange = ''100+'' then [Field ''price'' (Cmp 100 None)]
      else [])"

text \<open>
  \<^verbatim>\<open>if param: ...\<close> for an optional string parameter: nothing is added for \<^verbatim>\<open>None\<close>
  and for the empty string.
\<close>

definition if_given :: "string option \<Rightarrow> (string \<Rightarrow> query) \<Rightarrow> query" where
  "if_given param f = (case param of None \<Rightarrow> [] | Some s \<Rightarrow> (if s = [] then [] else f s))"

definition get_books_query ::
  "string option \<Rightarrow> string option \<Rightarrow> string option \<Rightarrow> string option \<Rightarrow> query" where
  "get_books_query search category condition priceRange =
     if_given search (\<lambda>s. [Or [(''title'', Regex s ''i''), (''author'', Regex s ''i'')]])
     @ if_given category (\<lambda>s. [Field ''category'' (Eq s)])
     @ if_given condition (\<lambda>s. [Field ''condition'' (Eq s)])
     @ if_given priceRange price_clauses"

definition get_books ::
  "regex_engine \<Rightarrow> (val \<Rightarrow> string) \<Rightarrow> collection \<Rightarrow> string option \<Rightarrow> string option \<Rightarrow>
   string option \<Rightarrow> string option \<Rightarrow> int \<Rightarrow> error + doc list" where
  "get_books rx repr books_collection search category condition priceRange limit =
     (case find_docs rx books_collection (get_books_query search category condition priceRange) of
        Inl e \<Rightarrow> Inl e
      | Inr found \<Rightarrow> for_each (get_books_body repr) (limit_docs limit found))"

text \<open>
  \<^verbatim>\<open>get_book\<close> (lines 204 to 220). \<open>get_book_try\<close> is the body of the \<^verbatim>\<open>try\<close>;
  the handler \<^verbatim>\<open>except Exception\<close> turns whatever it raises, its own 404 included, into
  the 404 \<^verbatim>\<open>Book not found\<close>.
\<close>

definition get_book_try :: "short_ids \<Rightarrow> (val \<Rightarrow> string) \<Rightarrow> collection \<Rightarrow> string \<Rightarrow> error + doc" where
  "get_book_try short repr books_collection book_id =
     (case id_filter short book_id of
        Inl e \<Rightarrow> Inl e
      | Inr i \<Rightarrow>
         (case find_one_id books_collection i of
            None \<Rightarrow> Inl (HTTPException 404 ''Book not found'')
          | Some book \<Rightarrow> get_book_body repr book))"

definition get_book :: "short_ids \<Rightarrow> (val \<Rightarrow> string) \<Rightarrow> collection \<Rightarrow> string \<Rightarrow> error + doc" where
  "get_book short repr books_collection book_id =
     (case get_book_try short repr books_collection book_id of
        Inl e \<Rightarrow> Inl (HTTPException 404 ''Book not found'')
      | Inr book \<Rightarrow> Inr book)"

section \<open>Auth service\<close>

text \<open>
  A token is a payload signed with a key (PyJWT, HS256). The signature is modelled ideally:
  it verifies exactly when the token was signed with the verifying key; any other string is
  \<open>Garbage\<close>. The payload is the one \<^verbatim>\<open>create_token\<close> builds: subject, role and expiry
  (seconds since the epoch). Time is an input: \<open>now\<close> is the clock reading of the call.
\<close>

record payload =
  claim_sub :: string
  claim_role :: string
  claim_exp :: int

datatype token = Signed string payload | Garbage string

definition jwt_encode :: "payload \<Rightarrow> string \<Rightarrow> token" where
  "jwt_encode p key = Signed key p"

fun jwt_decode :: "token \<Rightarrow> string \<Rightarrow> int \<Rightarrow> error + payload" where
  "jwt_decode (Garbage s) key now = Inl InvalidTokenError"
| "jwt_decode (Signed k p) key now =
     (if k \<noteq> key then Inl InvalidTokenError
      else if claim_exp p \<le> now then Inl ExpiredSignatureError
      else Inr p)"

text \<open>\<^verbatim>\<open>create_token\<close> (lines 62 to 68): the expiry is seven days after the call.\<close>

definition create_token :: "string \<Rightarrow> int \<Rightarrow> string \<Rightarrow> string \<Rightarrow> token" where
  "create_token SECRET_KEY now user_id role =
     jwt_encode \<lparr>claim_sub = user_id, claim_role = role, claim_exp = now + 7 * 86400\<rparr> SECRET_KEY"

text \<open>
  \<^verbatim>\<open>verify_token\<close> (lines 42 to 55). The two handlers catch the errors of \<^verbatim>\<open>jwt\<close> only
  (the expired one first); \<^verbatim>\<open>InvalidId\<close> and the 401 raised inside the \<^verbatim>\<open>try\<close> pass
  through. The identity returned is the stored user document with its \<^verbatim>\<open>_id\<close> printed:
  its fields are \<^verbatim>\<open>_id\<close>, \<^verbatim>\<open>name\<close>, \<^verbatim>\<open>email\<close>, \<^verbatim>\<open>password\<close>, \<^verbatim>\<open>role\<close>,
  \<^verbatim>\<open>created_at\<close> for a user that \<^verbatim>\<open>register\<close> stored.
\<close>

definition verify_token ::
  "short_ids \<Rightarrow> (val \<Rightarrow> string) \<Rightarrow> string \<Rightarrow> int \<Rightarrow> collection \<Rightarrow> token \<Rightarrow> error + doc" where
  "verify_token short repr SECRET_KEY now users_collection credentials =
     (case jwt_decode credentials SECRET_KEY now of
        Inl e \<Rightarrow>
         (if e = ExpiredSignatureError then Inl (HTTPException 401 ''Token expired'')
          else if e = InvalidTokenError then Inl (HTTPException 401 ''Invalid token'')
          else Inl e)
      | Inr p \<Rightarrow>
         (case id_filter short (claim_sub p) of
            Inl e \<Rightarrow> Inl e
          | Inr i \<Rightarrow>
             (case find_one_id users_collection i of
                None \<Rightarrow> Inl (HTTPException 401 ''User not found'')
              | Some user \<Rightarrow> str_id repr user)))"

text \<open>\<^verbatim>\<open>require_admin\<close> (lines 57 to 60).\<close>

definition require_admin :: "doc \<Rightarrow> error + doc" where
  "require_admin current_user =
     (if dict_get current_user ''role'' VNone \<noteq> VStr ''admin''
      then Inl (HTTPException 403 ''Admin access required'')
      else Inr current_user)"

text \<open>
  \<^verbatim>\<open>register\<close> (lines 87 to 127). \<open>hashpw\<close> is bcrypt's hash function and \<open>salt\<close> the salt
  that \<^verbatim>\<open>gensalt\<close> drew; \<open>new_id\<close> is the id the driver generates for the insert. The result
  is the new user collection, the token and the public view of the user.
\<close>

definition register ::
  "(string \<Rightarrow> string \<Rightarrow> string) \<Rightarrow> string \<Rightarrow> int \<Rightarrow> string \<Rightarrow> oid \<Rightarrow> collection \<Rightarrow>
   string \<Rightarrow> string \<Rightarrow> string \<Rightarrow> string \<Rightarrow> error + (collection \<times> token \<times> doc)" where
  "register hashpw SECRET_KEY now salt new_id users_collection name email password role =
     (if find_one_email users_collection email \<noteq> None
      then Inl (HTTPException 400 ''Email already registered'')
      else if role \<notin> set [''user'', ''admin'']
      then Inl (HTTPException 400 ''Invalid role'')
      else
        (let hashed_password = hashpw password salt;
             user = [''name'' \<mapsto> VStr name, ''email'' \<mapsto> VStr email,
                     ''password'' \<mapsto> VStr hashed_password, ''role'' \<mapsto> VStr role,
                     ''created_at'' \<mapsto> VDate now]
         in (case insert_one users_collection new_id user of
               Inl e \<Rightarrow> Inl e
             | Inr users' \<Rightarrow>
                (let user_id = str_oid new_id;
                     token = create_token SECRET_KEY now user_id role
                 in Inr (users', token,
                      [''id'' \<mapsto> VStr user_id, ''name'' \<mapsto> VStr name,
                       ''email'' \<mapsto> VStr email, ''role'' \<mapsto> VStr role])))))"

text \<open>
  \<^verbatim>\<open>login\<close> (lines 129 to 154). \<open>checkpw\<close> is bcrypt's check, which raises on a stored
  hash it cannot read. After the role check \<^verbatim>\<open>user["role"]\<close> is the requested role, which
  is what the token is issued for.
\<close>

definition login ::
  "(string \<Rightarrow> string \<Rightarrow> error + bool) \<Rightarrow> (val \<Rightarrow> string) \<Rightarrow> string \<Rightarrow> int \<Rightarrow> collection \<Rightarrow>
   string \<Rightarrow> string \<Rightarrow> string \<Rightarrow> error + (token \<times> doc)" where
  "login checkpw repr SECRET_KEY now users_collection email password role =
     (case find_one_email users_collection email of
        None \<Rightarrow> Inl (HTTPException 401 ''Invalid credentials'')
      | Some user \<Rightarrow>
         (case user ''password'' of
            None \<Rightarrow> Inl (KeyError ''password'')
          | Some (VStr hashed) \<Rightarrow>
             (case checkpw password hashed of
                Inl e \<Rightarrow> Inl e
              | Inr ok \<Rightarrow>
                 (if \<not> ok then Inl (HTTPException 401 ''Invalid credentials'')
                  else if dict_get user ''role'' VNone \<noteq> VStr role
                  then Inl (HTTPException 403 ''Invalid role for this account'')
                  else
                    (case (user ''_id'', user ''name'', user ''email'') of
                       (Some i, Some n, Some e) \<Rightarrow>
                         (let user_id = py_str repr i;
                              token = create_token SECRET_KEY now user_id role
                          in Inr (token,
                               [''id'' \<mapsto> VStr user_id, ''name'' \<mapsto> n,
                                ''email'' \<mapsto> e, ''role'' \<mapsto> VStr role]))
                     | (None, _, _) \<Rightarrow> Inl (KeyError ''_id'')
                     | (_, None, _) \<Rightarrow> Inl (KeyError ''name'')
                     | _ \<Rightarrow> Inl (KeyError ''email''))))
          | Some _ \<Rightarrow> Inl AttributeError))"

section \<open>Listing service: create, update, delete\<close>

text \<open>
  The ownership check, the same statement in \<^verbatim>\<open>update_book\<close> (lines 280 to 281) and in
  \<^verbatim>\<open>delete_book\<close> (lines 317 to 318):
  \<^verbatim>\<open>if current_user["role"] != "admin" and str(book.get("sellerId")) != current_user["id"]:
      raise HTTPException(status_code=403, detail="Not authorized")\<close>
  \<^verbatim>\<open>and\<close> evaluates its right operand, and with it \<^verbatim>\<open>current_user["id"]\<close>, only when
  the role is not admin; a subscript on a missing key raises KeyError.
\<close>

definition check_ownership_or_admin :: "(val \<Rightarrow> string) \<Rightarrow> doc \<Rightarrow> doc \<Rightarrow> error + unit" where
  "check_ownership_or_admin repr current_user book =
     (case current_user ''role'' of
        None \<Rightarrow> Inl (KeyError ''role'')
      | Some r \<Rightarrow>
         (if r \<noteq> VStr ''admin''
          then (case current_user ''id'' of
                  None \<Rightarrow> Inl (KeyError ''id'')
                | Some uid \<Rightarrow>
                   (if VStr (py_str repr (dict_get book ''sellerId'' VNone)) \<noteq> uid
                    then Inl (HTTPException 403 ''Not authorized'')
                    else Inr ()))
          else Inr ()))"

text \<open>An optional form field as a stored value: \<^verbatim>\<open>None\<close> is null.\<close>

definition opt_str :: "string option \<Rightarrow> val" where
  "opt_str x = (case x of None \<Rightarrow> VNone | Some s \<Rightarrow> VStr s)"

text \<open>
  An uploaded image (the parameter \<^verbatim>\<open>image\<close>, here \<open>image_file\<close>) is given by the name
  under which the handler saved it (\<^verbatim>\<open>file_path.name\<close>, a time stamp and the client's file
  name); writing the file is not modelled.
\<close>

definition image_url_of :: "string \<Rightarrow> val" where
  "image_url_of file_name = VStr (''/uploads/'' @ file_name)"

text \<open>
  \<^verbatim>\<open>upload_book\<close> (lines 222 to 260). The dictionary display is evaluated entry by entry,
  so the first missing key of \<^verbatim>\<open>current_user\<close> raises before anything is inserted.
\<close>

definition upload_book ::
  "int \<Rightarrow> oid \<Rightarrow> collection \<Rightarrow> string \<Rightarrow> string \<Rightarrow> rat \<Rightarrow> string \<Rightarrow> string \<Rightarrow>
   string option \<Rightarrow> string option \<Rightarrow> string option \<Rightarrow> doc \<Rightarrow> error + (collection \<times> doc)" where
  "upload_book now new_id books_collection title author price category condition
     description isbn image_file current_user =
     (let image_url = (case image_file of None \<Rightarrow> VNone | Some file_name \<Rightarrow> image_url_of file_name)
      in (case current_user ''id'' of
            None \<Rightarrow> Inl (KeyError ''id'')
          | Some seller_id \<Rightarrow>
             (case current_user ''email'' of
                None \<Rightarrow> Inl (KeyError ''email'')
              | Some seller_email \<Rightarrow>
                 (case current_user ''name'' of
                    None \<Rightarrow> Inl (KeyError ''name'')
                  | Some seller_name \<Rightarrow>
                     (let book = [''title'' \<mapsto> VStr title, ''author'' \<mapsto> VStr author,
                                  ''price'' \<mapsto> VNum price, ''category'' \<mapsto> VStr category,
                                  ''condition'' \<mapsto> VStr condition,
                                  ''description'' \<mapsto> opt_str description,
                                  ''isbn'' \<mapsto> opt_str isbn, ''image'' \<mapsto> image_url,
                                  ''sellerId'' \<mapsto> seller_id, ''sellerEmail'' \<mapsto> seller_email,
                                  ''sellerName'' \<mapsto> seller_name, ''status'' \<mapsto> VStr ''active'',
                                  ''created_at'' \<mapsto> VDate now]
                      in (case insert_one books_collection new_id book of
                            Inl e \<Rightarrow> Inl e
                          | Inr books' \<Rightarrow>
                             Inr (books', book(''_id'' \<mapsto> VStr (str_oid new_id)))))))))"

text \<open>
  \<^verbatim>\<open>if field: update_data[name] = field\<close>: an absent or empty string field is not applied;
  the price is applied whenever it is given (\<^verbatim>\<open>is not None\<close>).
\<close>

definition set_if_truthy :: "string \<Rightarrow> string option \<Rightarrow> doc \<Rightarrow> doc" where
  "set_if_truthy k field update_data =
     (case field of
        None \<Rightarrow> update_data
      | Some s \<Rightarrow> (if s = [] then update_data else update_data(k \<mapsto> VStr s)))"

definition update_data_of ::
  "string option \<Rightarrow> string option \<Rightarrow> rat option \<Rightarrow> string option \<Rightarrow> string option \<Rightarrow>
   string option \<Rightarrow> string option \<Rightarrow> string option \<Rightarrow> doc" where
  "update_data_of title author price category condition description status image_file =
     (let u1 = set_if_truthy ''title'' title Map.empty;
          u2 = set_if_truthy ''author'' author u1;
          u3 = (case price of None \<Rightarrow> u2 | Some p \<Rightarrow> u2(''price'' \<mapsto> VNum p));
          u4 = set_if_truthy ''category'' category u3;
          u5 = set_if_truthy ''condition'' condition u4;
          u6 = set_if_truthy ''description'' description u5;
          u7 = set_if_truthy ''status'' status u6
      in (case image_file of None \<Rightarrow> u7 | Some file_name \<Rightarrow> u7(''image'' \<mapsto> image_url_of file_name)))"

text \<open>
  \<^verbatim>\<open>update_book\<close> (lines 262 to 308). \<^verbatim>\<open>ObjectId(book_id)\<close> is outside any
  \<^verbatim>\<open>try\<close> here. The document is read again after the update and returned with its id
  printed.
\<close>

definition update_book ::
  "short_ids \<Rightarrow> (val \<Rightarrow> string) \<Rightarrow> collection \<Rightarrow> string \<Rightarrow> string option \<Rightarrow> string option \<Rightarrow> rat option \<Rightarrow>
   string option \<Rightarrow> string option \<Rightarrow> string option \<Rightarrow> string option \<Rightarrow> string option \<Rightarrow>
   doc \<Rightarrow> error + (collection \<times> doc)" where
  "update_book short repr books_collection book_id title author price category condition
     description status image_file current_user =
     (case id_filter short book_id of
        Inl e \<Rightarrow> Inl e
      | Inr i \<Rightarrow>
         (case find_one_id books_collection i of
            None \<Rightarrow> Inl (HTTPException 404 ''Book not found'')
          | Some book \<Rightarrow>
             and_then (check_ownership_or_admin repr current_user book) (\<lambda>_.
               (let update_data =
                      update_data_of title author price category condition description status image_file;
                    books' = update_one books_collection i update_data
                in (case find_one_id books' i of
                      None \<Rightarrow> Inl TypeError
                    | Some updated_book \<Rightarrow>
                       and_then (str_id repr updated_book) (\<lambda>b. Inr (books', b)))))))"

text \<open>\<^verbatim>\<open>delete_book\<close> (lines 310 to 321).\<close>

definition delete_book ::
  "short_ids \<Rightarrow> (val \<Rightarrow> string) \<Rightarrow> collection \<Rightarrow> string \<Rightarrow> doc \<Rightarrow> error + (collection \<times> string)" where
  "delete_book short repr books_collection book_id current_user =
     (case id_filter short book_id of
        Inl e \<Rightarrow> Inl e
      | Inr i \<Rightarrow>
         (case find_one_id books_collection i of
            None \<Rightarrow> Inl (HTTPException 404 ''Book not found'')
          | Some book \<Rightarrow>
             and_then (check_ownership_or_admin repr current_user book) (\<lambda>_.
               Inr (delete_one books_collection i, ''Book deleted successfully''))))"

section \<open>Ingestion adapter\<close>

text \<open>
  \<^verbatim>\<open>src/test_ingestion.py\<close>. A spreadsheet is read as a list of rows, each a map from
  the sheet's column names to cells; a cell is blank or holds a value.
  \<^verbatim>\<open>fillna("N/A")\<close> puts the sentinel into the blank cells. A column that the sheet does
  not have is absent from the row, and \<^verbatim>\<open>row.get(column, default)\<close> then gives the default.
\<close>

datatype cell = Blank | Cell val

type_synonym sheet_row = "string \<rightharpoonup> cell"

definition fillna :: "val \<Rightarrow> sheet_row \<Rightarrow> doc" where
  "fillna v r = (\<lambda>k. case r k of None \<Rightarrow> None | Some Blank \<Rightarrow> Some v | Some (Cell x) \<Rightarrow> Some x)"

text \<open>\<^verbatim>\<open>needle in haystack\<close> for strings: the needle occurs as a contiguous part.\<close>

definition starts_with :: "string \<Rightarrow> string \<Rightarrow> bool" where
  "starts_with needle s = (take (length needle) s = needle)"

fun py_in :: "string \<Rightarrow> string \<Rightarrow> bool" where
  "py_in needle [] = (needle = [])"
| "py_in needle (c # cs) = (starts_with needle (c # cs) \<or> py_in needle cs)"

text \<open>
  \<^verbatim>\<open>.lower().strip().replace(" ", "-")\<close> on the characters of ASCII: letters to lower case,
  white space removed at both ends, every remaining blank replaced by a hyphen.
\<close>

definition lower_char :: "char \<Rightarrow> char" where
  "lower_char c =
     (let n = (of_char c :: nat) in if 65 \<le> n \<and> n \<le> 90 then char_of (n + 32) else c)"

definition is_space :: "char \<Rightarrow> bool" where
  "is_space c =
     (let n = (of_char c :: nat) in n = 32 \<or> (9 \<le> n \<and> n \<le> 13) \<or> (28 \<le> n \<and> n \<le> 31))"

definition py_strip :: "string \<Rightarrow> string" where
  "py_strip s = rev (dropWhile is_space (rev (dropWhile is_space s)))"

definition school_tag :: "string \<Rightarrow> string" where
  "school_tag s = map (\<lambda>c. if c = CHR '' '' then CHR ''-'' else c) (py_strip (map lower_char s))"

text \<open>
  The board of a row (lines 20 to 23). The default \<^verbatim>\<open>General\<close> is what \<^verbatim>\<open>row.get\<close>
  gives when the sheet has no \<^verbatim>\<open>Board\<close> column; the keyword search on the title runs
  only when the value is the sentinel, and leaves the sentinel in place when neither keyword
  occurs.
\<close>

definition board_of :: "doc \<Rightarrow> string \<Rightarrow> val" where
  "board_of row book_title =
     (let board = dict_get row ''Board'' (VStr ''General'')
      in if board = VStr ''N/A''
         then (if py_in ''Sindh'' book_title then VStr ''Sindh Board''
               else if py_in ''Punjab'' book_title then VStr ''Punjab Board''
               else board)
         else board)"

text \<open>The document built for one row (lines 17 to 40).\<close>

definition row_document :: "(val \<Rightarrow> string) \<Rightarrow> int \<Rightarrow> string \<Rightarrow> doc \<Rightarrow> doc" where
  "row_document repr now source_name row =
     (let book_title =
            py_str repr (dict_get row ''Book Name'' (dict_get row ''Book_Name'' (VStr ''No Title'')));
          board = board_of row book_title
      in [''category_type'' \<mapsto> VStr ''coursebook'',
          ''sub_category_type'' \<mapsto> dict_get row ''Sub Category'' (VStr ''General''),
          ''publisher'' \<mapsto> dict_get row ''Publisher'' (VStr ''Unknown''),
          ''board'' \<mapsto> board,
          ''title'' \<mapsto> VStr book_title,
          ''price'' \<mapsto> dict_get row ''Price'' (VNum 0),
          ''sku'' \<mapsto> dict_get row ''SKU'' (VStr ''N/A''),
          ''images'' \<mapsto> VList [dict_get row ''Image URL'' (dict_get row ''Image_URL'' (VStr []))],
          ''attributes'' \<mapsto> VDict
             [(''school_tags'',
               VList [VStr (school_tag (py_str repr (dict_get row ''School'' (VStr ''General''))))]),
              (''class'', dict_get row ''Class'' (VStr ''General''))],
          ''source'' \<mapsto> VStr source_name,
          ''last_updated'' \<mapsto> VDate now])"

text \<open>
  \<^verbatim>\<open>insert_many\<close> (ordered): the documents are inserted one after the other; the first
  failure raises and leaves the earlier ones in the collection.
\<close>

fun insert_many :: "collection \<Rightarrow> (oid \<times> doc) list \<Rightarrow> collection \<times> error option" where
  "insert_many coll [] = (coll, None)"
| "insert_many coll ((i, d) # rest) =
     (case insert_one coll i d of
        Inl e \<Rightarrow> (coll, Some e)
      | Inr coll' \<Rightarrow> insert_many coll' rest)"

text \<open>
  The state the script works on: the collection \<^verbatim>\<open>Book_inventory\<close>, the lines printed
  so far and the files it has tried to read. The outside world is \<open>stdout\<close> (what
  \<^verbatim>\<open>print\<close> does with a line: \<open>None\<close> when the line is written, the exception when
  the stream refuses it, as a stream does that cannot encode the line's first character),
  \<open>read_excel\<close> (the file system: the rows of a sheet, or the exception of an unreadable
  one) and \<open>gen_ids\<close> (the ids the driver generates for a batch).
\<close>

datatype event = Processing string | Uploaded nat string | ErrorWith string error

record world =
  inventory :: collection
  printed :: "event list"
  opened :: "string list"

type_synonym console = "event \<Rightarrow> error option"

type_synonym file_system = "string \<Rightarrow> error + sheet_row list"

type_synonym id_source = "collection \<Rightarrow> nat \<Rightarrow> oid list"

definition print_line :: "console \<Rightarrow> event \<Rightarrow> world \<Rightarrow> error + world" where
  "print_line stdout line w =
     (case stdout line of
        None \<Rightarrow> Inr (w\<lparr>printed := printed w @ [line]\<rparr>)
      | Some e \<Rightarrow> Inl e)"

text \<open>
  The body of the \<^verbatim>\<open>try\<close> of \<^verbatim>\<open>run_full_ingestion\<close> (lines 11 to 45): the world it
  reached, and the exception that ended it, if any.
\<close>

definition run_full_ingestion_try ::
  "(val \<Rightarrow> string) \<Rightarrow> console \<Rightarrow> file_system \<Rightarrow> id_source \<Rightarrow> int \<Rightarrow> world \<Rightarrow>
   string \<Rightarrow> string \<Rightarrow> world \<times> error option" where
  "run_full_ingestion_try repr stdout read_excel gen_ids now w file_path source_name =
     (case print_line stdout (Processing source_name) w of
        Inl e \<Rightarrow> (w, Some e)
      | Inr w1 \<Rightarrow>
         (let w2 = w1\<lparr>opened := opened w1 @ [file_path]\<rparr>
          in (case read_excel file_path of
                Inl e \<Rightarrow> (w2, Some e)
              | Inr sheet \<Rightarrow>
                 (let df = map (fillna (VStr ''N/A'')) sheet;
                      records = map (row_document repr now source_name) df
                  in if records \<noteq> []
                     then (case insert_many (inventory w2)
                                  (zip (gen_ids (inventory w2) (length records)) records) of
                             (coll, Some e) \<Rightarrow> (w2\<lparr>inventory := coll\<rparr>, Some e)
                           | (coll, None) \<Rightarrow>
                              (case print_line stdout (Uploaded (length records) source_name)
                                      (w2\<lparr>inventory := coll\<rparr>) of
                                 Inl e \<Rightarrow> (w2\<lparr>inventory := coll\<rparr>, Some e)
                               | Inr w3 \<Rightarrow> (w3, None)))
                     else (w2, None)))))"

text \<open>
  \<^verbatim>\<open>run_full_ingestion\<close> (lines 9 to 48): the world the call reached, and the exception
  it raised to its caller, if any. \<^verbatim>\<open>except Exception as e\<close> catches what the body
  raised and prints the error; this \<^verbatim>\<open>print\<close> (line 48) is inside no \<^verbatim>\<open>try\<close>, so
  what it raises leaves the function. Only exceptions of the class \<^verbatim>\<open>Exception\<close> are
  modelled (an interrupt of the process is not).
\<close>

definition run_full_ingestion ::
  "(val \<Rightarrow> string) \<Rightarrow> console \<Rightarrow> file_system \<Rightarrow> id_source \<Rightarrow> int \<Rightarrow> world \<Rightarrow>
   string \<Rightarrow> string \<Rightarrow> world \<times> error option" where
  "run_full_ingestion repr stdout read_excel gen_ids now w file_path source_name =
     (case run_full_ingestion_try repr stdout read_excel gen_ids now w file_path source_name of
        (w', None) \<Rightarrow> (w', None)
      | (w', Some e) \<Rightarrow>
         (case print_line stdout (ErrorWith source_name e) w' of
            Inl e' \<Rightarrow> (w', Some e')
          | Inr w'' \<Rightarrow> (w'', None)))"

text \<open>
  A run of the script over its batches, one call after the other (lines 52 to 54 are the
  run over the three files named there): a call that raises ends the run.
\<close>

fun run_batches ::
  "(val \<Rightarrow> string) \<Rightarrow> console \<Rightarrow> file_system \<Rightarrow> id_source \<Rightarrow> int \<Rightarrow> world \<Rightarrow>
   (string \<times> string) list \<Rightarrow> world \<times> error option" where
  "run_batches repr stdout read_excel gen_ids now w [] = (w, None)"
| "run_batches repr stdout read_excel gen_ids now w ((file_path, source_name) # rest) =
     (case run_full_ingestion repr stdout read_excel gen_ids now w file_path source_name of
        (w', None) \<Rightarrow> run_batches repr stdout read_excel gen_ids now w' rest
      | (w', Some e) \<Rightarrow> (w', Some e))"

definition module_calls ::
  "(val \<Rightarrow> string) \<Rightarrow> console \<Rightarrow> file_system \<Rightarrow> id_source \<Rightarrow> int \<Rightarrow> world \<Rightarrow>
   world \<times> error option" where
  "module_calls repr stdout read_excel gen_ids now w =
     run_batches repr stdout read_excel gen_ids now w
       [(''Katib books.xlsx'', ''katib.pk''),
        (''Tariq books.xlsx'', ''tariqbookstore.com''),
        (''Idris books.xlsx'', ''idrisbookbank.com'')]"

text \<open>The sources whose processing was started, in the order of the printed lines.\<close>

fun attempted :: "event list \<Rightarrow> string list" where
  "attempted [] = []"
| "attempted (Processing s # es) = s # attempted es"
| "attempted (e # es) = attempted es"

section \<open>What the database guarantees\<close>

text \<open>
  In a collection whose ids the driver generated, every document has a well-formed ObjectId
  as its \<^verbatim>\<open>_id\<close>, and no two documents have the same one (the unique index on
  \<^verbatim>\<open>_id\<close>).
\<close>

definition has_oid :: "doc \<Rightarrow> bool" where
  "has_oid d = (case d ''_id'' of Some (VOid i) \<Rightarrow> wf_oid i | _ \<Rightarrow> False)"

definition collection_ok :: "collection \<Rightarrow> bool" where
  "collection_ok coll = (list_all has_oid coll \<and> distinct (map (\<lambda>d. d ''_id'') coll))"

section \<open>Example data\<close>

text \<open>
  An environment for the examples: the encoder that, for an id of eleven bytes, sends the
  zero byte that ends its buffer as the twelfth.
\<close>

definition ex_c_encoder :: short_ids where
  "ex_c_encoder i = Inr (Oid (str_oid i @ ''00''))"


definition ex_book_mid :: doc where
  "ex_book_mid =
     [''_id'' \<mapsto> VOid (Oid ''0123456789abcdef00000035''), ''title'' \<mapsto> VStr ''Mid'',
      ''author'' \<mapsto> VStr ''B'', ''price'' \<mapsto> VNum 35, ''image'' \<mapsto> VNone,
      ''sellerId'' \<mapsto> VStr ''0123456789abcdef000000aa'']"



definition ex_book_zero :: doc where
  "ex_book_zero =
     [''_id'' \<mapsto> VOid (Oid ''0123456789abcdef00000000''), ''title'' \<mapsto> VStr ''Zero'',
      ''author'' \<mapsto> VStr ''E'', ''price'' \<mapsto> VNum 7, ''image'' \<mapsto> VNone,
      ''sellerId'' \<mapsto> VStr ''0123456789abcdef000000aa'']"

definition ex_book_legacy :: doc where
  "ex_book_legacy =
     [''_id'' \<mapsto> VOid (Oid ''0123456789abcdef00000015''), ''Book Name'' \<mapsto> VStr ''Algebra I'',
      ''Publisher'' \<mapsto> VStr ''XYZ Press'', ''Price'' \<mapsto> VNum 15,
      ''images'' \<mapsto> VList [VStr ''http://x/1.png'']]"

text \<open>
  A user with the role \<^verbatim>\<open>user\<close> as \<^verbatim>\<open>register\<close> stores it, the token issued to it
  at time 0 under the key \<^verbatim>\<open>k\<close>, and the identity that \<^verbatim>\<open>verify_token\<close> returns for
  that token: the stored document with its id printed.
\<close>

definition ex_user_bob :: doc where
  "ex_user_bob =
     [''name'' \<mapsto> VStr ''Bob'', ''email'' \<mapsto> VStr ''bob@x.org'',
      ''password'' \<mapsto> VStr ''saltpw'', ''role'' \<mapsto> VStr ''user'',
      ''created_at'' \<mapsto> VDate 0, ''_id'' \<mapsto> VOid (Oid ''0123456789abcdef000000bb'')]"

definition ex_token_bob :: token where
  "ex_token_bob =
     Signed ''k'' \<lparr>claim_sub = ''0123456789abcdef000000bb'', claim_role = ''user'',
                   claim_exp = 604800\<rparr>"

definition ex_identity_bob :: doc where
  "ex_identity_bob = ex_user_bob(''_id'' \<mapsto> VStr ''0123456789abcdef000000bb'')"

definition ex_view_bob :: doc where
  "ex_view_bob =
     [''id'' \<mapsto> VStr ''0123456789abcdef000000bb'', ''name'' \<mapsto> VStr ''Bob'',
      ''email'' \<mapsto> VStr ''bob@x.org'', ''role'' \<mapsto> VStr ''user'']"

section \<open>The schema normalizer\<close>

lemma map_image_cases:
  "map_image d = Inr d' \<Longrightarrow>
     (d' = d \<and> (d ''images'' = None \<or> d ''image'' \<noteq> None)) \<or>
     (\<exists>v. d' = d(''image'' \<mapsto> v) \<and> d ''images'' \<noteq> None)"
  unfolding map_image_def
  by (auto split: option.splits sum.splits if_splits)

lemma map_image_fixed:
  "d ''images'' = None \<or> d ''image'' \<noteq> None \<Longrightarrow> map_image d = Inr d"
  unfolding map_image_def
  by (auto split: option.splits)

lemma map_image_other: "map_image d = Inr d' \<Longrightarrow> k \<noteq> ''image'' \<Longrightarrow> d' k = d k"
  by (drule map_image_cases) auto

lemma map_image_settled:
  "map_image d = Inr d' \<Longrightarrow> d' ''images'' = None \<or> d' ''image'' \<noteq> None"
  by (drule map_image_cases) auto

lemma normalize_search_stable:
  assumes "normalize_search d = Inr d'"
  shows "(d' ''title'' \<noteq> None \<or> d' ''Book Name'' = None) \<and> d' ''author'' \<noteq> None \<and>
         d' ''price'' \<noteq> None \<and> (d' ''images'' = None \<or> d' ''image'' \<noteq> None)"
proof -
  let ?b = "map_price (map_author (map_title_search d))"
  have m: "map_image ?b = Inr d'"
    using assms by (simp add: normalize_search_def)
  have t: "?b ''title'' \<noteq> None \<or> ?b ''Book Name'' = None"
    by (simp add: map_price_def map_author_def map_title_search_def)
  have a: "?b ''author'' \<noteq> None"
    by (simp add: map_price_def map_author_def)
  have p: "?b ''price'' \<noteq> None"
    by (simp add: map_price_def)
  show ?thesis
    using t a p map_image_settled[OF m] map_image_other[OF m, of "''title''"]
      map_image_other[OF m, of "''Book Name''"] map_image_other[OF m, of "''author''"]
      map_image_other[OF m, of "''price''"]
    by simp
qed

lemma normalize_search_fixed:
  assumes "d ''title'' \<noteq> None \<or> d ''Book Name'' = None" and "d ''author'' \<noteq> None"
    and "d ''price'' \<noteq> None" and "d ''images'' = None \<or> d ''image'' \<noteq> None"
  shows "normalize_search d = Inr d"
proof -
  have "map_title_search d = d"
    using assms(1) by (auto simp: map_title_search_def)
  moreover have "map_author d = d"
    using assms(2) by (auto simp: map_author_def)
  moreover have "map_price d = d"
    using assms(3) by (auto simp: map_price_def)
  ultimately show ?thesis
    using assms(4) by (simp add: normalize_search_def map_image_fixed)
qed

lemma normalize_by_id_stable:
  assumes "normalize_by_id d = Inr d'"
  shows "d' ''title'' \<noteq> None \<and> d' ''author'' \<noteq> None \<and>
         (d' ''images'' = None \<or> d' ''image'' \<noteq> None)"
proof -
  let ?b = "map_author (map_title_by_id d)"
  have m: "map_image ?b = Inr d'"
    using assms by (simp add: normalize_by_id_def)
  have t: "?b ''title'' \<noteq> None"
    by (simp add: map_author_def map_title_by_id_def)
  have a: "?b ''author'' \<noteq> None"
    by (simp add: map_author_def)
  show ?thesis
    using t a map_image_settled[OF m] map_image_other[OF m, of "''title''"]
      map_image_other[OF m, of "''author''"]
    by simp
qed

lemma normalize_by_id_fixed:
  assumes "d ''title'' \<noteq> None" and "d ''author'' \<noteq> None"
    and "d ''images'' = None \<or> d ''image'' \<noteq> None"
  shows "normalize_by_id d = Inr d"
proof -
  have "map_title_by_id d = d"
    using assms(1) by (auto simp: map_title_by_id_def)
  moreover have "map_author d = d"
    using assms(2) by (auto simp: map_author_def)
  ultimately show ?thesis
    using assms(3) by (simp add: normalize_by_id_def map_image_fixed)
qed

lemma normalize_search_twice:
  "and_then (normalize_search d) normalize_search = normalize_search d"
proof (cases "normalize_search d")
  case (Inl e)
  then show ?thesis by (simp add: and_then_def)
next
  case (Inr d')
  from normalize_search_stable[OF Inr] have "normalize_search d' = Inr d'"
    by (intro normalize_search_fixed) simp_all
  then show ?thesis using Inr by (simp add: and_then_def)
qed

lemma normalize_by_id_twice:
  "and_then (normalize_by_id d) normalize_by_id = normalize_by_id d"
proof (cases "normalize_by_id d")
  case (Inl e)
  then show ?thesis by (simp add: and_then_def)
next
  case (Inr d')
  from normalize_by_id_stable[OF Inr] have "normalize_by_id d' = Inr d'"
    by (intro normalize_by_id_fixed) simp_all
  then show ?thesis using Inr by (simp add: and_then_def)
qed

lemma normalize_search_id: "normalize_search d = Inr d' \<Longrightarrow> d' ''_id'' = d ''_id''"
  unfolding normalize_search_def
  by (drule map_image_other[where k = "''_id''"])
     (simp_all add: map_price_def map_author_def map_title_search_def)

lemma normalize_by_id_id: "normalize_by_id d = Inr d' \<Longrightarrow> d' ''_id'' = d ''_id''"
  unfolding normalize_by_id_def
  by (drule map_image_other[where k = "''_id''"])
     (simp_all add: map_author_def map_title_by_id_def)

lemma str_id_printed: "d ''_id'' = Some (VStr s) \<Longrightarrow> str_id repr d = Inr d"
  by (simp add: str_id_def fun_upd_idem)

lemma str_id_result: "str_id repr d = Inr d' \<Longrightarrow> \<exists>s. d' ''_id'' = Some (VStr s)"
  by (auto simp: str_id_def split: option.splits)

lemma get_books_body_twice:
  "and_then (get_books_body repr d) (get_books_body repr) = get_books_body repr d"
proof (cases "get_books_body repr d")
  case (Inl e)
  then show ?thesis by (simp add: and_then_def)
next
  case (Inr d')
  then obtain d1 where s: "str_id repr d = Inr d1" and n: "normalize_search d1 = Inr d'"
    by (auto simp: get_books_body_def and_then_def split: sum.splits)
  from str_id_result[OF s] normalize_search_id[OF n] obtain x where "d' ''_id'' = Some (VStr x)"
    by auto
  then have "str_id repr d' = Inr d'"
    by (rule str_id_printed)
  moreover from normalize_search_stable[OF n] have "normalize_search d' = Inr d'"
    by (intro normalize_search_fixed) simp_all
  ultimately show ?thesis
    using Inr by (simp add: and_then_def get_books_body_def)
qed

lemma get_book_body_twice:
  "and_then (get_book_body repr d) (get_book_body repr) = get_book_body repr d"
proof (cases "get_book_body repr d")
  case (Inl e)
  then show ?thesis by (simp add: and_then_def)
next
  case (Inr d')
  then obtain d1 where s: "str_id repr d = Inr d1" and n: "normalize_by_id d1 = Inr d'"
    by (auto simp: get_book_body_def and_then_def split: sum.splits)
  from str_id_result[OF s] normalize_by_id_id[OF n] obtain x where "d' ''_id'' = Some (VStr x)"
    by auto
  then have "str_id repr d' = Inr d'"
    by (rule str_id_printed)
  moreover from normalize_by_id_stable[OF n] have "normalize_by_id d' = Inr d'"
    by (intro normalize_by_id_fixed) simp_all
  ultimately show ?thesis
    using Inr by (simp add: and_then_def get_book_body_def)
qed

text \<open>
  C4. The schema normalizer is idempotent. On each path, running the schema mapping on its
  own result gives that result again (and a pass that raised has no result to run on); the
  same holds for the whole per-document pass, which also prints the id. A document that
  already has the four canonical fields is returned unchanged by both mappings.
\<close>

theorem normalizer_idempotent:
  "and_then (normalize_search d) normalize_search = normalize_search d \<and>
   and_then (normalize_by_id d) normalize_by_id = normalize_by_id d \<and>
   and_then (get_books_body repr d) (get_books_body repr) = get_books_body repr d \<and>
   and_then (get_book_body repr d) (get_book_body repr) = get_book_body repr d \<and>
   (canonical d \<longrightarrow> normalize_search d = Inr d \<and> normalize_by_id d = Inr d)"
  using normalize_search_twice[of d] normalize_by_id_twice[of d]
    get_books_body_twice[of repr d] get_book_body_twice[of repr d]
    normalize_search_fixed[of d] normalize_by_id_fixed[of d]
  by (simp add: canonical_def)

theorem normalizer_idempotent_witness:
  "canonical [''title'' \<mapsto> VStr ''Algebra I'', ''author'' \<mapsto> VStr ''XYZ Press'',
              ''price'' \<mapsto> VNum 15, ''image'' \<mapsto> VNone] \<and>
   normalize_search [''title'' \<mapsto> VStr ''Algebra I'', ''author'' \<mapsto> VStr ''XYZ Press'',
              ''price'' \<mapsto> VNum 15, ''image'' \<mapsto> VNone] =
     Inr [''title'' \<mapsto> VStr ''Algebra I'', ''author'' \<mapsto> VStr ''XYZ Press'',
          ''price'' \<mapsto> VNum 15, ''image'' \<mapsto> VNone]"
  using normalizer_idempotent
    [of "[''title'' \<mapsto> VStr ''Algebra I'', ''author'' \<mapsto> VStr ''XYZ Press'',
          ''price'' \<mapsto> VNum 15, ''image'' \<mapsto> VNone]"]
  by (simp add: canonical_def)

section \<open>getById and malformed identifiers\<close>

lemma get_book_error:
  "get_book short repr books book_id = Inl e \<Longrightarrow> e = HTTPException 404 ''Book not found''"
  by (auto simp: get_book_def split: sum.splits)

lemma ObjectId_refuses:
  "length s \<noteq> 24 \<or> fromhex s = None \<Longrightarrow> ObjectId s = Inl InvalidId"
  by (auto simp: ObjectId_def)

text \<open>
  C8, as stated, fails on a string of 24 characters that is not an identifier of 24
  hexadecimal digits but that the parser accepts: 22 digits followed by two blanks are read
  as an id of eleven bytes, and with the encoder that completes it by a zero byte getById
  returns the stored listing whose id ends in 00 instead of failing with NotFound.
\<close>

theorem get_book_malformed_counterexample:
  "\<not> list_all hex_digit ''0123456789abcdef000000  '' \<and>
   ObjectId ''0123456789abcdef000000  '' = Inr (Oid ''0123456789abcdef000000'') \<and>
   get_book ex_c_encoder (\<lambda>v. []) [ex_book_zero] ''0123456789abcdef000000  '' =
     Inr (ex_book_zero(''_id'' \<mapsto> VStr ''0123456789abcdef00000000''))"
  by (simp add: get_book_def get_book_try_def get_book_body_def id_filter_def wire_def
      ObjectId_def hex_space_def hex_digit_def lower_hex_def ex_c_encoder_def find_one_id_def
      ex_book_zero_def and_then_def str_id_def normalize_by_id_def map_title_by_id_def
      map_author_def map_image_def)

text \<open>
  C8, amended. For every id string that the identifier parser refuses (its length is not
  24, or its characters are not pairs of hexadecimal digits with white space around the
  pairs only), getById fails with the 404 "Book not found", which is the very result of an
  id that the parser accepts and that matches no stored listing; whatever id is given, and
  whatever the lookup raises, no other failure is ever returned.
\<close>

theorem get_book_malformed_is_not_found:
  "(length bad \<noteq> 24 \<or> fromhex bad = None \<longrightarrow>
      ObjectId bad = Inl InvalidId \<and>
      get_book short repr books bad = Inl (HTTPException 404 ''Book not found'')) \<and>
   (id_filter short good = Inr i \<and> find_one_id books i = None \<longrightarrow>
      get_book short repr books good = Inl (HTTPException 404 ''Book not found'')) \<and>
   (id_filter short other = Inl x \<longrightarrow>
      get_book short repr books other = Inl (HTTPException 404 ''Book not found'')) \<and>
   (get_book short repr books book_id = Inl e \<longrightarrow> e = HTTPException 404 ''Book not found'')"
  using get_book_error[of short repr books book_id e] ObjectId_refuses[of bad]
  by (auto simp: get_book_def get_book_try_def id_filter_def)

theorem get_book_malformed_is_not_found_witness:
  "length ''not-an-id'' = 9 \<and>
   get_book ex_c_encoder (\<lambda>v. []) [ex_book_zero] ''not-an-id'' =
     Inl (HTTPException 404 ''Book not found'') \<and>
   fromhex ''0123456789abcdef0000000g'' = None \<and>
   get_book ex_c_encoder (\<lambda>v. []) [ex_book_zero] ''0123456789abcdef0000000g'' =
     Inl (HTTPException 404 ''Book not found'') \<and>
   id_filter ex_c_encoder ''0123456789abcdef01234567'' = Inr (Oid ''0123456789abcdef01234567'') \<and>
   find_one_id [ex_book_zero] (Oid ''0123456789abcdef01234567'') = None \<and>
   get_book ex_c_encoder (\<lambda>v. []) [ex_book_zero] ''0123456789abcdef01234567'' =
     Inl (HTTPException 404 ''Book not found'') \<and>
   id_filter (\<lambda>i. Inl OperationFailure) ''0123456789abcdef000000  '' = Inl OperationFailure \<and>
   get_book (\<lambda>i. Inl OperationFailure) (\<lambda>v. []) [ex_book_zero] ''0123456789abcdef000000  '' =
     Inl (HTTPException 404 ''Book not found'')"
proof -
  have a0: "length ''not-an-id'' = 9"
    by simp
  then have a: "length ''not-an-id'' \<noteq> 24 \<or> fromhex ''not-an-id'' = None"
    by simp
  have b0: "fromhex ''0123456789abcdef0000000g'' = None"
    by (simp add: hex_space_def hex_digit_def)
  then have b: "length ''0123456789abcdef0000000g'' \<noteq> 24 \<or>
                fromhex ''0123456789abcdef0000000g'' = None"
    by (rule disjI2)
  have c: "id_filter ex_c_encoder ''0123456789abcdef01234567'' =
             Inr (Oid ''0123456789abcdef01234567'')"
    by (simp add: id_filter_def wire_def ObjectId_def hex_space_def hex_digit_def lower_hex_def)
  have d: "find_one_id [ex_book_zero] (Oid ''0123456789abcdef01234567'') = None"
    by (simp add: find_one_id_def ex_book_zero_def)
  have e: "id_filter (\<lambda>i. Inl OperationFailure) ''0123456789abcdef000000  '' =
             Inl OperationFailure"
    by (simp add: id_filter_def wire_def ObjectId_def hex_space_def hex_digit_def lower_hex_def)
  have r1: "get_book ex_c_encoder (\<lambda>v. []) [ex_book_zero] ''not-an-id'' =
              Inl (HTTPException 404 ''Book not found'')"
    using a
      get_book_malformed_is_not_found[where bad = "''not-an-id''" and short = ex_c_encoder
        and repr = "\<lambda>v. []" and books = "[ex_book_zero]"
        and good = "''0123456789abcdef01234567''" and i = "Oid ''0123456789abcdef01234567''"
        and other = "''not-an-id''" and x = InvalidId
        and book_id = "''not-an-id''" and e = "HTTPException 404 ''Book not found''"]
    by blast
  have r2: "get_book ex_c_encoder (\<lambda>v. []) [ex_book_zero] ''0123456789abcdef0000000g'' =
              Inl (HTTPException 404 ''Book not found'')"
    using b
      get_book_malformed_is_not_found[where bad = "''0123456789abcdef0000000g''"
        and short = ex_c_encoder and repr = "\<lambda>v. []" and books = "[ex_book_zero]"
        and good = "''0123456789abcdef01234567''" and i = "Oid ''0123456789abcdef01234567''"
        and other = "''not-an-id''" and x = InvalidId
        and book_id = "''not-an-id''" and e = "HTTPException 404 ''Book not found''"]
    by blast
  have r3: "get_book ex_c_encoder (\<lambda>v. []) [ex_book_zero] ''0123456789abcdef01234567'' =
              Inl (HTTPException 404 ''Book not found'')"
    using c d
      get_book_malformed_is_not_found[where bad = "''not-an-id''" and short = ex_c_encoder
        and repr = "\<lambda>v. []" and books = "[ex_book_zero]"
        and good = "''0123456789abcdef01234567''" and i = "Oid ''0123456789abcdef01234567''"
        and other = "''not-an-id''" and x = InvalidId
        and book_id = "''not-an-id''" and e = "HTTPException 404 ''Book not found''"]
    by blast
  have r4: "get_book (\<lambda>i. Inl OperationFailure) (\<lambda>v. []) [ex_book_zero]
              ''0123456789abcdef000000  '' = Inl (HTTPException 404 ''Book not found'')"
    using e
      get_book_malformed_is_not_found[where bad = "''not-an-id''"
        and short = "\<lambda>i. Inl OperationFailure" and repr = "\<lambda>v. []"
        and books = "[ex_book_zero]"
        and good = "''0123456789abcdef01234567''" and i = "Oid ''0123456789abcdef01234567''"
        and other = "''0123456789abcdef000000  ''" and x = OperationFailure
        and book_id = "''not-an-id''" and e = "HTTPException 404 ''Book not found''"]
    by blast
  show ?thesis
    using a0 b0 c d e r1 r2 r3 r4 by blast
qed

section \<open>Search by price range\<close>











section \<open>What the two schema mappings do\<close>

lemma normalize_search_fields:
  assumes "normalize_search d = Inr d'"
  shows "d' ''title'' = (if d ''title'' = None then d ''Book Name'' else d ''title'')"
    and "d' ''author'' =
           (if d ''author'' = None then Some (dict_get d ''Publisher'' (VStr ''Unknown''))
            else d ''author'')"
    and "d' ''price'' =
           (if d ''price'' = None then Some (dict_get d ''Price'' (VNum 0)) else d ''price'')"
proof -
  let ?m = "map_price (map_author (map_title_search d))"
  have m: "map_image ?m = Inr d'"
    using assms by (simp add: normalize_search_def)
  have "?m ''title'' = (if d ''title'' = None then d ''Book Name'' else d ''title'')"
    by (auto simp: map_price_def map_author_def map_title_search_def dict_get_def)
  then show "d' ''title'' = (if d ''title'' = None then d ''Book Name'' else d ''title'')"
    using map_image_other[OF m, of "''title''"] by simp
  have "?m ''author'' =
          (if d ''author'' = None then Some (dict_get d ''Publisher'' (VStr ''Unknown''))
           else d ''author'')"
    by (simp add: map_price_def map_author_def map_title_search_def dict_get_def)
  then show "d' ''author'' =
          (if d ''author'' = None then Some (dict_get d ''Publisher'' (VStr ''Unknown''))
           else d ''author'')"
    using map_image_other[OF m, of "''author''"] by simp
  have "?m ''price'' =
          (if d ''price'' = None then Some (dict_get d ''Price'' (VNum 0)) else d ''price'')"
    by (simp add: map_price_def map_author_def map_title_search_def dict_get_def)
  then show "d' ''price'' =
          (if d ''price'' = None then Some (dict_get d ''Price'' (VNum 0)) else d ''price'')"
    using map_image_other[OF m, of "''price''"] by simp
qed

lemma normalize_by_id_fields:
  assumes "normalize_by_id d = Inr d'"
  shows "d' ''title'' =
           (if d ''title'' = None then Some (dict_get d ''Book Name'' (VStr ''Untitled''))
            else d ''title'')"
    and "d' ''author'' =
           (if d ''author'' = None then Some (dict_get d ''Publisher'' (VStr ''Unknown''))
            else d ''author'')"
    and "d' ''price'' = d ''price''"
proof -
  let ?m = "map_author (map_title_by_id d)"
  have m: "map_image ?m = Inr d'"
    using assms by (simp add: normalize_by_id_def)
  have "?m ''title'' =
          (if d ''title'' = None then Some (dict_get d ''Book Name'' (VStr ''Untitled''))
           else d ''title'')"
    by (simp add: map_author_def map_title_by_id_def)
  then show "d' ''title'' =
          (if d ''title'' = None then Some (dict_get d ''Book Name'' (VStr ''Untitled''))
           else d ''title'')"
    using map_image_other[OF m, of "''title''"] by simp
  have "?m ''author'' =
          (if d ''author'' = None then Some (dict_get d ''Publisher'' (VStr ''Unknown''))
           else d ''author'')"
    by (simp add: map_author_def map_title_by_id_def dict_get_def)
  then show "d' ''author'' =
          (if d ''author'' = None then Some (dict_get d ''Publisher'' (VStr ''Unknown''))
           else d ''author'')"
    using map_image_other[OF m, of "''author''"] by simp
  have "?m ''price'' = d ''price''"
    by (simp add: map_author_def map_title_by_id_def)
  then show "d' ''price'' = d ''price''"
    using map_image_other[OF m, of "''price''"] by simp
qed

lemma map_image_list:
  "d ''image'' = None \<Longrightarrow> d ''images'' = Some (VList (x # xs)) \<Longrightarrow>
     map_image d = Inr (d(''image'' \<mapsto> x))"
  "d ''image'' = None \<Longrightarrow> d ''images'' = Some (VList []) \<Longrightarrow>
     map_image d = Inr (d(''image'' \<mapsto> VNone))"
  "d ''images'' = None \<Longrightarrow> map_image d = Inr d"
  "d ''image'' = Some v \<Longrightarrow> map_image d = Inr d"
  by (simp_all add: map_image_def split: option.splits)

text \<open>
  C3. The specification's own legacy document, fetched by id: title, author and image are
  mapped, the price is not, because \<^verbatim>\<open>get_book\<close> has no price step; the search path maps
  the price of the same document to 15. On the search path a document with neither
  \<^verbatim>\<open>title\<close> nor \<^verbatim>\<open>Book Name\<close> keeps no title, because the guard of the title step
  asks for \<^verbatim>\<open>Book Name\<close>; fetched by id the same document gets the title "Untitled".
\<close>

theorem schema_mappings_disagree:
  "get_book ex_c_encoder (\<lambda>v. []) [ex_book_legacy] ''0123456789abcdef00000015'' =
     Inr (ex_book_legacy(''_id'' \<mapsto> VStr ''0123456789abcdef00000015'',
            ''title'' \<mapsto> VStr ''Algebra I'', ''author'' \<mapsto> VStr ''XYZ Press'',
            ''image'' \<mapsto> VStr ''http://x/1.png'')) \<and>
   (ex_book_legacy(''_id'' \<mapsto> VStr ''0123456789abcdef00000015'',
            ''title'' \<mapsto> VStr ''Algebra I'', ''author'' \<mapsto> VStr ''XYZ Press'',
            ''image'' \<mapsto> VStr ''http://x/1.png'')) ''price'' = None \<and>
   get_books (\<lambda>p opts. Some (\<lambda>s. True)) (\<lambda>v. []) [ex_book_legacy] None None None None 50 =
     Inr [ex_book_legacy(''_id'' \<mapsto> VStr ''0123456789abcdef00000015'',
            ''title'' \<mapsto> VStr ''Algebra I'', ''author'' \<mapsto> VStr ''XYZ Press'',
            ''price'' \<mapsto> VNum 15, ''image'' \<mapsto> VStr ''http://x/1.png'')] \<and>
   normalize_search [''_id'' \<mapsto> VStr ''0123456789abcdef00000016'', ''Price'' \<mapsto> VNum 5] =
     Inr [''_id'' \<mapsto> VStr ''0123456789abcdef00000016'', ''Price'' \<mapsto> VNum 5,
          ''author'' \<mapsto> VStr ''Unknown'', ''price'' \<mapsto> VNum 5] \<and>
   [''_id'' \<mapsto> VStr ''0123456789abcdef00000016'', ''Price'' \<mapsto> VNum 5,
    ''author'' \<mapsto> VStr ''Unknown'', ''price'' \<mapsto> VNum (5::rat)] ''title'' = None \<and>
   normalize_by_id [''_id'' \<mapsto> VStr ''0123456789abcdef00000016'', ''Price'' \<mapsto> VNum 5] =
     Inr [''_id'' \<mapsto> VStr ''0123456789abcdef00000016'', ''Price'' \<mapsto> VNum 5,
          ''title'' \<mapsto> VStr ''Untitled'', ''author'' \<mapsto> VStr ''Unknown'']"
  by (simp add: get_book_def get_book_try_def get_book_body_def id_filter_def wire_def ObjectId_def hex_space_def
      hex_digit_def lower_hex_def find_one_id_def ex_book_legacy_def and_then_def str_id_def
      normalize_by_id_def map_title_by_id_def map_author_def map_image_def dict_get_def
      get_books_def get_books_query_def if_given_def find_docs_def limit_docs_def
      get_books_body_def normalize_search_def map_title_search_def map_price_def)

section \<open>Ingestion: the board of a row\<close>

lemma board_of_blank_cell:
  "row ''Board'' = Some (VStr ''N/A'') \<Longrightarrow>
     board_of row t =
       (if py_in ''Sindh'' t then VStr ''Sindh Board''
        else if py_in ''Punjab'' t then VStr ''Punjab Board'' else VStr ''N/A'')"
  by (simp add: board_of_def dict_get_def)

lemma board_of_absent_column: "row ''Board'' = None \<Longrightarrow> board_of row t = VStr ''General''"
  by (simp add: board_of_def dict_get_def)

lemma fillna_absent: "r k = None \<Longrightarrow> fillna v r k = None"
  by (simp add: fillna_def)

lemma fillna_blank: "r k = Some Blank \<Longrightarrow> fillna v r k = Some v"
  by (simp add: fillna_def)

text \<open>
  C5. A sheet without a \<^verbatim>\<open>Board\<close> column, a row titled "Sindh Board Math": the document
  gets the board "General", not "Sindh Board", since the keyword search runs only on the
  sentinel. With a blank \<^verbatim>\<open>Board\<close> cell the same title gives "Sindh Board", and a
  title with neither keyword keeps the sentinel "N/A" as its board.
\<close>

theorem board_without_column_is_general:
  "row_document (\<lambda>v. []) 0 ''katib.pk''
     (fillna (VStr ''N/A'') [''Book Name'' \<mapsto> Cell (VStr ''Sindh Board Math'')]) ''board'' =
     Some (VStr ''General'') \<and>
   row_document (\<lambda>v. []) 0 ''katib.pk''
     (fillna (VStr ''N/A'')
        [''Book Name'' \<mapsto> Cell (VStr ''Sindh Board Math''), ''Board'' \<mapsto> Blank]) ''board'' =
     Some (VStr ''Sindh Board'') \<and>
   row_document (\<lambda>v. []) 0 ''katib.pk''
     (fillna (VStr ''N/A'')
        [''Book Name'' \<mapsto> Cell (VStr ''Physics''), ''Board'' \<mapsto> Blank]) ''board'' =
     Some (VStr ''N/A'')"
  by (simp add: row_document_def board_of_def dict_get_def fillna_def starts_with_def)

section \<open>Ingestion: one batch and the rest of the run\<close>

lemma attempted_append: "attempted (xs @ ys) = attempted xs @ attempted ys"
  by (induction xs rule: attempted.induct) simp_all

lemma run_full_ingestion_try_prints:
  assumes "\<forall>line. stdout line = None"
    and "run_full_ingestion_try repr stdout read_excel gen_ids now w file_path source_name = (w', r)"
  shows "attempted (printed w') = attempted (printed w) @ [source_name] \<and>
         opened w' = opened w @ [file_path]"
  using assms
  by (auto simp: run_full_ingestion_try_def print_line_def Let_def attempted_append
      split: sum.splits prod.splits option.splits if_splits)

lemma run_full_ingestion_returns:
  assumes "\<forall>s e. stdout (ErrorWith s e) = None"
  shows "\<exists>w'. run_full_ingestion repr stdout read_excel gen_ids now w file_path source_name =
           (w', None)"
proof (cases "run_full_ingestion_try repr stdout read_excel gen_ids now w file_path source_name")
  case (Pair w1 r)
  then show ?thesis
    using assms by (cases r) (simp_all add: run_full_ingestion_def print_line_def)
qed

lemma run_full_ingestion_all_printed:
  assumes "\<forall>line. stdout line = None"
  shows "\<exists>w'. run_full_ingestion repr stdout read_excel gen_ids now w file_path source_name =
           (w', None) \<and>
         attempted (printed w') = attempted (printed w) @ [source_name] \<and>
         opened w' = opened w @ [file_path]"
proof (cases "run_full_ingestion_try repr stdout read_excel gen_ids now w file_path source_name")
  case (Pair w1 r)
  from run_full_ingestion_try_prints[OF assms Pair]
  have "attempted (printed w1) = attempted (printed w) @ [source_name]"
    and "opened w1 = opened w @ [file_path]"
    by simp_all
  then show ?thesis
    using Pair assms
    by (cases r) (simp_all add: run_full_ingestion_def print_line_def attempted_append)
qed

lemma run_batches_returns:
  assumes "\<forall>s e. stdout (ErrorWith s e) = None"
  shows "\<exists>w'. run_batches repr stdout read_excel gen_ids now w batches = (w', None)"
proof (induction batches arbitrary: w)
  case Nil
  then show ?case by simp
next
  case (Cons batch rest)
  obtain file_path source_name where b: "batch = (file_path, source_name)"
    by (cases batch)
  from run_full_ingestion_returns[OF assms] obtain w1
    where "run_full_ingestion repr stdout read_excel gen_ids now w file_path source_name =
             (w1, None)"
    by blast
  with Cons.IH[of w1] b show ?case
    by simp
qed

lemma run_batches_all_printed:
  assumes "\<forall>line. stdout line = None"
  shows "\<exists>w'. run_batches repr stdout read_excel gen_ids now w batches = (w', None) \<and>
         attempted (printed w') = attempted (printed w) @ map snd batches \<and>
         opened w' = opened w @ map fst batches"
proof (induction batches arbitrary: w)
  case Nil
  then show ?case by simp
next
  case (Cons batch rest)
  obtain file_path source_name where b: "batch = (file_path, source_name)"
    by (cases batch)
  from run_full_ingestion_all_printed[OF assms] obtain w1
    where w1: "run_full_ingestion repr stdout read_excel gen_ids now w file_path source_name =
                 (w1, None)"
      and a1: "attempted (printed w1) = attempted (printed w) @ [source_name]"
      and o1: "opened w1 = opened w @ [file_path]"
    by blast
  from Cons.IH[of w1] obtain w2
    where w2: "run_batches repr stdout read_excel gen_ids now w1 rest = (w2, None)"
      and a2: "attempted (printed w2) = attempted (printed w1) @ map snd rest"
      and o2: "opened w2 = opened w1 @ map fst rest"
    by blast
  show ?case
    using b w1 w2 a1 a2 o1 o2 by simp
qed

lemma run_full_ingestion_unreadable:
  assumes "\<forall>line. stdout line = None" and "read_excel file_path = Inl e"
  shows "run_full_ingestion repr stdout read_excel gen_ids now w file_path source_name =
           (w\<lparr>printed := printed w @ [Processing source_name, ErrorWith source_name e],
              opened := opened w @ [file_path]\<rparr>, None)"
  using assms
  by (simp add: run_full_ingestion_def run_full_ingestion_try_def print_line_def)

text \<open>
  C9, as stated, fails when the handler's own \<^verbatim>\<open>print\<close> raises. On a console that
  refuses every line of the script (one that cannot encode the symbol each line starts with),
  the first print of the first batch raises, the handler catches it, the handler's print
  raises in turn and the exception leaves \<^verbatim>\<open>run_full_ingestion\<close>: the run ends with
  no file read. On a console that refuses the error line only, the unreadable first file is
  caught, the handler's print raises, and the two remaining files are never read.
\<close>

theorem ingestion_failure_propagates_counterexample:
  "module_calls (\<lambda>v. []) (\<lambda>line. Some UnicodeEncodeError) (\<lambda>p. Inr []) (\<lambda>c n. []) 0
     \<lparr>inventory = [], printed = [], opened = []\<rparr> =
     (\<lparr>inventory = [], printed = [], opened = []\<rparr>, Some UnicodeEncodeError) \<and>
   module_calls (\<lambda>v. [])
     (\<lambda>line. case line of ErrorWith s e \<Rightarrow> Some UnicodeEncodeError | _ \<Rightarrow> None)
     (\<lambda>p. if p = ''Katib books.xlsx'' then Inl (ReadError p) else Inr []) (\<lambda>c n. []) 0
     \<lparr>inventory = [], printed = [], opened = []\<rparr> =
     (\<lparr>inventory = [], printed = [Processing ''katib.pk''], opened = [''Katib books.xlsx'']\<rparr>,
      Some UnicodeEncodeError)"
  by (simp add: module_calls_def run_full_ingestion_def run_full_ingestion_try_def
      print_line_def)

text \<open>
  C9, amended. On a console that accepts the error line of the handler, every call of
  \<^verbatim>\<open>run_full_ingestion\<close> returns to its caller without an exception, whatever the file
  system and the database do, so a run over any sequence of batches calls it for every
  batch and returns. On a console that accepts every line of the script, each batch in turn
  has its start printed and its file read, whatever happened to the batches before it; a
  batch whose file cannot be read leaves the collection as it was and prints the error.
\<close>

theorem ingestion_failure_is_isolated:
  "((\<forall>s e. stdout (ErrorWith s e) = None) \<longrightarrow>
      (\<exists>w'. run_full_ingestion repr stdout read_excel gen_ids now w file_path source_name =
               (w', None)) \<and>
      (\<exists>w'. run_batches repr stdout read_excel gen_ids now w batches = (w', None))) \<and>
   ((\<forall>line. stdout line = None) \<longrightarrow>
      (\<exists>w'. run_batches repr stdout read_excel gen_ids now w batches = (w', None) \<and>
            attempted (printed w') = attempted (printed w) @ map snd batches \<and>
            opened w' = opened w @ map fst batches)) \<and>
   ((\<forall>line. stdout line = None) \<and> read_excel file_path = Inl e \<longrightarrow>
      run_full_ingestion repr stdout read_excel gen_ids now w file_path source_name =
        (w\<lparr>printed := printed w @ [Processing source_name, ErrorWith source_name e],
           opened := opened w @ [file_path]\<rparr>, None))"
  using run_full_ingestion_returns[of stdout repr read_excel gen_ids now w file_path source_name]
    run_batches_returns[of stdout repr read_excel gen_ids now w batches]
    run_batches_all_printed[of stdout repr read_excel gen_ids now w batches]
    run_full_ingestion_unreadable[of stdout read_excel file_path e repr gen_ids now w source_name]
  by blast

lemma module_calls_example:
  "module_calls (\<lambda>v. []) (\<lambda>line. None)
     (\<lambda>p. if p = ''Katib books.xlsx'' then Inl (ReadError p) else Inr []) (\<lambda>c n. []) 0
     \<lparr>inventory = [], printed = [], opened = []\<rparr> =
   (\<lparr>inventory = [],
     printed = [Processing ''katib.pk'', ErrorWith ''katib.pk'' (ReadError ''Katib books.xlsx''),
                Processing ''tariqbookstore.com'', Processing ''idrisbookbank.com''],
     opened = [''Katib books.xlsx'', ''Tariq books.xlsx'', ''Idris books.xlsx'']\<rparr>, None)"
  by (simp add: module_calls_def run_full_ingestion_def run_full_ingestion_try_def
      print_line_def)

theorem ingestion_failure_is_isolated_witness:
  "(\<forall>s e. (\<lambda>line. None :: error option) (ErrorWith s e) = None) \<and>
   (\<forall>line. (\<lambda>line. None :: error option) line = None) \<and>
   (\<lambda>p. if p = ''Katib books.xlsx'' then Inl (ReadError p) else Inr []) ''Katib books.xlsx'' =
     Inl (ReadError ''Katib books.xlsx'') \<and>
   run_full_ingestion (\<lambda>v. []) (\<lambda>line. None)
     (\<lambda>p. if p = ''Katib books.xlsx'' then Inl (ReadError p) else Inr [])
     (\<lambda>c n. []) 0 \<lparr>inventory = [], printed = [], opened = []\<rparr> ''Katib books.xlsx'' ''katib.pk'' =
     (\<lparr>inventory = [],
       printed = [Processing ''katib.pk'', ErrorWith ''katib.pk'' (ReadError ''Katib books.xlsx'')],
       opened = [''Katib books.xlsx'']\<rparr>, None) \<and>
   (\<exists>w'. run_batches (\<lambda>v. []) (\<lambda>line. None)
       (\<lambda>p. if p = ''Katib books.xlsx'' then Inl (ReadError p) else Inr [])
       (\<lambda>c n. []) 0 \<lparr>inventory = [], printed = [], opened = []\<rparr>
       [(''Katib books.xlsx'', ''katib.pk''), (''Tariq books.xlsx'', ''tariqbookstore.com'')] =
         (w', None) \<and>
       opened w' = [''Katib books.xlsx'', ''Tariq books.xlsx''])"
  using ingestion_failure_is_isolated
    [where repr = "\<lambda>v. []" and stdout = "\<lambda>line. None"
       and read_excel = "\<lambda>p. if p = ''Katib books.xlsx'' then Inl (ReadError p) else Inr []"
       and gen_ids = "\<lambda>c n. []" and now = 0
       and w = "\<lparr>inventory = [], printed = [], opened = []\<rparr>"
       and file_path = "''Katib books.xlsx''" and source_name = "''katib.pk''"
       and batches = "[(''Katib books.xlsx'', ''katib.pk''),
                       (''Tariq books.xlsx'', ''tariqbookstore.com'')]"
       and e = "ReadError ''Katib books.xlsx''"]
  by (simp del: run_batches.simps) blast

section \<open>Tokens\<close>


lemma lower_hex_digit:
  "c \<in> set ''0123456789abcdef'' \<Longrightarrow> hex_digit c \<and> lower_hex c = c \<and> \<not> hex_space c"
  by (auto simp: hex_digit_def lower_hex_def hex_space_def)

lemma fromhex_digits:
  "\<forall>c\<in>set h. c \<in> set ''0123456789abcdef'' \<Longrightarrow> even (length h) \<Longrightarrow> fromhex h = Some h"
proof (induction h rule: fromhex.induct)
  case 1
  then show ?case by simp
next
  case (2 c)
  then show ?case by simp
next
  case (3 c d cs)
  from "3.prems"(1) have c: "hex_digit c \<and> lower_hex c = c \<and> \<not> hex_space c"
    and d: "hex_digit d \<and> lower_hex d = d \<and> \<not> hex_space d"
    using lower_hex_digit by simp_all
  from "3.prems" have "fromhex cs = Some cs"
    using c d by (intro "3.IH"(2)) simp_all
  then show ?case
    using c d by simp
qed

lemma ObjectId_str_oid: "wf_oid i \<Longrightarrow> ObjectId (str_oid i) = Inr i"
proof (cases i)
  case (Oid h)
  assume "wf_oid i"
  with Oid have l: "length h = 24" and a: "\<forall>c\<in>set h. c \<in> set ''0123456789abcdef''"
    by (simp_all add: wf_oid_def list_all_iff)
  from l have "even (length h)"
    by simp
  from fromhex_digits[OF a this] show ?thesis
    using Oid l by (simp add: ObjectId_def)
qed

lemma id_filter_str_oid: "wf_oid i \<Longrightarrow> id_filter short (str_oid i) = Inr i"
  by (simp add: id_filter_def ObjectId_str_oid wire_def wf_oid_def)

lemma find_one_id_Some:
  "find_one_id coll i = Some d \<Longrightarrow> d \<in> set coll \<and> d ''_id'' = Some (VOid i)"
  by (auto simp: find_one_id_def find_Some_iff)

lemma find_one_email_Some: "find_one_email coll e = Some d \<Longrightarrow> d \<in> set coll"
  by (auto simp: find_one_email_def find_Some_iff)

lemma find_one_id_unique:
  "distinct (map (\<lambda>d. d ''_id'') coll) \<Longrightarrow> d \<in> set coll \<Longrightarrow> d ''_id'' = Some (VOid i) \<Longrightarrow>
     find_one_id coll i = Some d"
  unfolding find_one_id_def
  by (induction coll) (auto simp: image_iff)

lemma find_one_id_append_new:
  "find_one_id coll i = None \<Longrightarrow> d ''_id'' = Some (VOid i) \<Longrightarrow> find_one_id (coll @ [d]) i = Some d"
  unfolding find_one_id_def
  by (induction coll) (auto split: if_splits)

lemma find_one_id_update_one:
  "find_one_id coll i = Some d \<Longrightarrow> upd ''_id'' = None \<Longrightarrow>
     find_one_id (update_one coll i upd) i = Some (d ++ upd)"
  unfolding find_one_id_def
  by (induction coll) (auto simp: map_add_def split: if_splits)

lemma jwt_decode_fresh:
  "now' < now + 7 * 86400 \<Longrightarrow>
     jwt_decode (create_token K now uid role) K now' =
       Inr \<lparr>claim_sub = uid, claim_role = role, claim_exp = now + 7 * 86400\<rparr>"
  by (simp add: create_token_def jwt_encode_def)

lemma verify_token_found:
  assumes "jwt_decode tok K now = Inr p" and "id_filter short (claim_sub p) = Inr i"
    and "find_one_id users i = Some user"
  shows "verify_token short repr K now users tok = Inr (user(''_id'' \<mapsto> VStr (str_oid i)))"
  using assms find_one_id_Some[OF assms(3)]
  by (simp add: verify_token_def str_id_def)

lemma register_success:
  assumes "register hashpw K now salt new_id users name email password role = Inr (users', tok, view)"
  shows "tok = create_token K now (str_oid new_id) role"
    and "find_one_id users new_id = None"
    and "users' = users @ [[''name'' \<mapsto> VStr name, ''email'' \<mapsto> VStr email,
                     ''password'' \<mapsto> VStr (hashpw password salt), ''role'' \<mapsto> VStr role,
                     ''created_at'' \<mapsto> VDate now, ''_id'' \<mapsto> VOid new_id]]"
    and "view ''id'' = Some (VStr (str_oid new_id))"
  using assms
  by (auto simp: register_def insert_one_def Let_def split: if_splits)

lemma login_success:
  assumes "login checkpw repr K now users email password role = Inr (tok, view)"
  shows "\<exists>user i. find_one_email users email = Some user \<and> user ''_id'' = Some i \<and>
           user ''role'' = Some (VStr role) \<and> tok = create_token K now (py_str repr i) role \<and>
           view ''id'' = Some (VStr (py_str repr i))"
proof (cases "find_one_email users email")
  case None
  with assms show ?thesis by (simp add: login_def)
next
  case (Some user)
  show ?thesis
  proof (cases "user ''role''")
    case None
    with assms Some show ?thesis
      by (auto simp: login_def dict_get_def split: option.splits val.splits sum.splits if_splits)
  next
    case r: (Some r)
    with assms Some show ?thesis
      by (auto simp: login_def dict_get_def Let_def split: option.splits val.splits sum.splits if_splits)
  qed
qed

lemma register_example:
  "register (\<lambda>p s. s @ p) ''k'' 0 ''salt'' (Oid ''0123456789abcdef000000bb'') []
     ''Bob'' ''bob@x.org'' ''pw'' ''user'' = Inr ([ex_user_bob], ex_token_bob, ex_view_bob)"
  by (simp add: register_def Let_def find_one_email_def some_str_def insert_one_def find_one_id_def
      create_token_def jwt_encode_def ex_user_bob_def ex_token_bob_def ex_view_bob_def)

lemma login_example:
  "login (\<lambda>p h. Inr (h = ''salt'' @ p)) (\<lambda>v. []) ''k'' 0 [ex_user_bob] ''bob@x.org'' ''pw'' ''user'' =
     Inr (ex_token_bob, ex_view_bob)"
  by (simp add: login_def Let_def find_one_email_def some_str_def dict_get_def create_token_def
      jwt_encode_def ex_user_bob_def ex_token_bob_def ex_view_bob_def)

lemma wf_oid_example: "wf_oid (Oid ''0123456789abcdef000000bb'')"
  by (simp add: wf_oid_def)

lemma collection_ok_example: "collection_ok [ex_user_bob]"
  by (simp add: collection_ok_def has_oid_def ex_user_bob_def wf_oid_def)

lemma verify_token_example:
  "verify_token ex_c_encoder (\<lambda>v. []) ''k'' 1 [ex_user_bob] ex_token_bob = Inr ex_identity_bob"
  by (simp add: verify_token_def ex_token_bob_def id_filter_def wire_def ObjectId_def hex_space_def hex_digit_def
      lower_hex_def find_one_id_def ex_user_bob_def str_id_def ex_identity_bob_def)

text \<open>
  C7. The token that \<^verbatim>\<open>register\<close> or \<^verbatim>\<open>login\<close> returns is the one issued for the
  user's id and role, and verifying it before its expiry against the store that the call
  left yields an identity with that id (under \<^verbatim>\<open>_id\<close>) and that role. The id of a
  registered user is the one the driver generated, a well-formed ObjectId; for
  \<^verbatim>\<open>login\<close> the user collection is as the database keeps it.
\<close>

theorem issued_token_verifies:
  "(register hashpw K now salt new_id users name email password role = Inr (users', tok, view) \<and>
    wf_oid new_id \<and> now' < now + 7 * 86400 \<longrightarrow>
      tok = create_token K now (str_oid new_id) role \<and>
      view ''id'' = Some (VStr (str_oid new_id)) \<and>
      (\<exists>ident. verify_token short repr K now' users' tok = Inr ident \<and>
         ident ''_id'' = Some (VStr (str_oid new_id)) \<and> ident ''role'' = Some (VStr role))) \<and>
   (login checkpw repr K now users email password role = Inr (tok, view) \<and>
    collection_ok users \<and> now' < now + 7 * 86400 \<longrightarrow>
      (\<exists>uid. tok = create_token K now uid role \<and> view ''id'' = Some (VStr uid) \<and>
         (\<exists>ident. verify_token short repr K now' users tok = Inr ident \<and>
            ident ''_id'' = Some (VStr uid) \<and> ident ''role'' = Some (VStr role))))"
proof (intro conjI impI)
  assume a: "register hashpw K now salt new_id users name email password role =
               Inr (users', tok, view) \<and> wf_oid new_id \<and> now' < now + 7 * 86400"
  then have r: "register hashpw K now salt new_id users name email password role =
               Inr (users', tok, view)"
    and wf: "wf_oid new_id" and t: "now' < now + 7 * 86400"
    by simp_all
  let ?user = "[''name'' \<mapsto> VStr name, ''email'' \<mapsto> VStr email,
                ''password'' \<mapsto> VStr (hashpw password salt), ''role'' \<mapsto> VStr role,
                ''created_at'' \<mapsto> VDate now, ''_id'' \<mapsto> VOid new_id]"
  note s = register_success[OF r]
  show "tok = create_token K now (str_oid new_id) role"
    by (rule s(1))
  show "view ''id'' = Some (VStr (str_oid new_id))"
    by (rule s(4))
  have f: "find_one_id users' new_id = Some ?user"
    unfolding s(3) by (rule find_one_id_append_new[OF s(2)]) simp
  have "verify_token short repr K now' users' tok = Inr (?user(''_id'' \<mapsto> VStr (str_oid new_id)))"
    unfolding s(1)
    by (rule verify_token_found[OF jwt_decode_fresh[OF t] _ f]) (simp add: id_filter_str_oid[OF wf])
  then show "\<exists>ident. verify_token short repr K now' users' tok = Inr ident \<and>
         ident ''_id'' = Some (VStr (str_oid new_id)) \<and> ident ''role'' = Some (VStr role)"
    by simp
next
  assume a: "login checkpw repr K now users email password role = Inr (tok, view) \<and>
             collection_ok users \<and> now' < now + 7 * 86400"
  then have l: "login checkpw repr K now users email password role = Inr (tok, view)"
    and ok: "collection_ok users" and t: "now' < now + 7 * 86400"
    by simp_all
  from login_success[OF l] obtain user j
    where e: "find_one_email users email = Some user" and j: "user ''_id'' = Some j"
      and ro: "user ''role'' = Some (VStr role)"
      and tk: "tok = create_token K now (py_str repr j) role"
      and vw: "view ''id'' = Some (VStr (py_str repr j))"
    by blast
  from find_one_email_Some[OF e] have mem: "user \<in> set users"
    by simp
  with ok have "has_oid user"
    by (simp add: collection_ok_def list_all_iff)
  with j obtain i where i: "j = VOid i" and wf: "wf_oid i"
    by (auto simp: has_oid_def split: val.splits)
  from ok have "distinct (map (\<lambda>d. d ''_id'') users)"
    by (simp add: collection_ok_def)
  from find_one_id_unique[OF this mem] j i have f: "find_one_id users i = Some user"
    by simp
  have "verify_token short repr K now' users tok = Inr (user(''_id'' \<mapsto> VStr (str_oid i)))"
    unfolding tk i
    by (rule verify_token_found[OF jwt_decode_fresh[OF t] _ f]) (simp add: id_filter_str_oid[OF wf])
  then show "\<exists>uid. tok = create_token K now uid role \<and> view ''id'' = Some (VStr uid) \<and>
         (\<exists>ident. verify_token short repr K now' users tok = Inr ident \<and>
            ident ''_id'' = Some (VStr uid) \<and> ident ''role'' = Some (VStr role))"
    using tk vw i ro by (intro exI[of _ "str_oid i"]) simp
qed

theorem issued_token_verifies_witness:
  "register (\<lambda>p s. s @ p) ''k'' 0 ''salt'' (Oid ''0123456789abcdef000000bb'') []
     ''Bob'' ''bob@x.org'' ''pw'' ''user'' = Inr ([ex_user_bob], ex_token_bob, ex_view_bob) \<and>
   wf_oid (Oid ''0123456789abcdef000000bb'') \<and> (1::int) < 0 + 7 * 86400 \<and>
   login (\<lambda>p h. Inr (h = ''salt'' @ p)) (\<lambda>v. []) ''k'' 0 [ex_user_bob] ''bob@x.org'' ''pw'' ''user'' =
     Inr (ex_token_bob, ex_view_bob) \<and>
   collection_ok [ex_user_bob] \<and>
   (\<exists>ident. verify_token ex_c_encoder (\<lambda>v. []) ''k'' 1 [ex_user_bob] ex_token_bob = Inr ident \<and>
      ident ''_id'' = Some (VStr ''0123456789abcdef000000bb'') \<and>
      ident ''role'' = Some (VStr ''user''))"
  using register_example login_example wf_oid_example collection_ok_example
    issued_token_verifies[where short = ex_c_encoder and hashpw = "\<lambda>p s. s @ p" and K = "''k''" and now = 0
      and salt = "''salt''" and new_id = "Oid ''0123456789abcdef000000bb''" and users = "[]"
      and name = "''Bob''" and email = "''bob@x.org''" and password = "''pw''" and role = "''user''"
      and users' = "[ex_user_bob]" and tok = ex_token_bob and view = ex_view_bob and now' = 1
      and repr = "\<lambda>v. []"]
    issued_token_verifies[where short = ex_c_encoder and K = "''k''" and now = 0
      and users = "[ex_user_bob]"
      and email = "''bob@x.org''" and password = "''pw''" and role = "''user''"
      and tok = ex_token_bob and view = ex_view_bob and now' = 1
      and repr = "\<lambda>v. []" and checkpw = "\<lambda>p h. Inr (h = ''salt'' @ p)"]
  by simp

text \<open>
  C10. Verification never reads the role claim of the token: changing it changes nothing.
  When the token decodes and its subject resolves to a stored user, the identity carries
  the name, email and role of the stored document; after the role of that user is changed
  in the store, the same token verifies to the new role.
\<close>

theorem verify_token_reads_store:
  "verify_token short repr K now users (Signed k (p\<lparr>claim_role := r\<rparr>)) =
     verify_token short repr K now users (Signed k p) \<and>
   (jwt_decode tok K now = Inr q \<and> id_filter short (claim_sub q) = Inr i \<and>
    find_one_id users i = Some user \<longrightarrow>
      (\<exists>ident. verify_token short repr K now users tok = Inr ident \<and>
         ident ''name'' = user ''name'' \<and> ident ''email'' = user ''email'' \<and>
         ident ''role'' = user ''role'') \<and>
      (\<exists>ident. verify_token short repr K now (update_one users i [''role'' \<mapsto> VStr r']) tok = Inr ident \<and>
         ident ''name'' = user ''name'' \<and> ident ''email'' = user ''email'' \<and>
         ident ''role'' = Some (VStr r')))"
proof (intro conjI impI)
  show "verify_token short repr K now users (Signed k (p\<lparr>claim_role := r\<rparr>)) =
     verify_token short repr K now users (Signed k p)"
    by (simp add: verify_token_def)
next
  assume a: "jwt_decode tok K now = Inr q \<and> id_filter short (claim_sub q) = Inr i \<and>
    find_one_id users i = Some user"
  then have d: "jwt_decode tok K now = Inr q" and o: "id_filter short (claim_sub q) = Inr i"
    and f: "find_one_id users i = Some user"
    by simp_all
  from verify_token_found[OF d o f, of repr]
  show "\<exists>ident. verify_token short repr K now users tok = Inr ident \<and>
         ident ''name'' = user ''name'' \<and> ident ''email'' = user ''email'' \<and>
         ident ''role'' = user ''role''"
    by simp
  have "find_one_id (update_one users i [''role'' \<mapsto> VStr r']) i =
          Some (user ++ [''role'' \<mapsto> VStr r'])"
    by (rule find_one_id_update_one[OF f]) simp
  from verify_token_found[OF d o this, of repr]
  show "\<exists>ident. verify_token short repr K now (update_one users i [''role'' \<mapsto> VStr r']) tok = Inr ident \<and>
         ident ''name'' = user ''name'' \<and> ident ''email'' = user ''email'' \<and>
         ident ''role'' = Some (VStr r')"
    by (simp add: map_add_def)
qed

theorem verify_token_reads_store_witness:
  "jwt_decode ex_token_bob ''k'' 1 =
     Inr \<lparr>claim_sub = ''0123456789abcdef000000bb'', claim_role = ''user'', claim_exp = 604800\<rparr> \<and>
   id_filter ex_c_encoder ''0123456789abcdef000000bb'' = Inr (Oid ''0123456789abcdef000000bb'') \<and>
   find_one_id [ex_user_bob] (Oid ''0123456789abcdef000000bb'') = Some ex_user_bob \<and>
   (\<exists>ident. verify_token ex_c_encoder (\<lambda>v. []) ''k'' 1
        (update_one [ex_user_bob] (Oid ''0123456789abcdef000000bb'') [''role'' \<mapsto> VStr ''admin''])
        ex_token_bob = Inr ident \<and>
      ident ''role'' = Some (VStr ''admin''))"
proof -
  have d: "jwt_decode ex_token_bob ''k'' 1 =
     Inr \<lparr>claim_sub = ''0123456789abcdef000000bb'', claim_role = ''user'', claim_exp = 604800\<rparr>"
    by (simp add: ex_token_bob_def)
  have o: "id_filter ex_c_encoder ''0123456789abcdef000000bb'' = Inr (Oid ''0123456789abcdef000000bb'')"
    by (simp add: id_filter_def wire_def ObjectId_def hex_space_def hex_digit_def lower_hex_def)
  have f: "find_one_id [ex_user_bob] (Oid ''0123456789abcdef000000bb'') = Some ex_user_bob"
    by (simp add: find_one_id_def ex_user_bob_def)
  show ?thesis
    using d o f
      verify_token_reads_store[where short = ex_c_encoder and repr = "\<lambda>v. []" and K = "''k''" and now = 1
        and users = "[ex_user_bob]" and tok = ex_token_bob
        and q = "\<lparr>claim_sub = ''0123456789abcdef000000bb'', claim_role = ''user'',
                  claim_exp = 604800\<rparr>"
        and i = "Oid ''0123456789abcdef000000bb''" and user = ex_user_bob and r' = "''admin''"]
    by (simp del: update_one.simps) blast
qed

section \<open>Ownership and the identity of the caller\<close>

lemma verify_token_identity:
  assumes "verify_token short repr K now users tok = Inr ident"
  shows "\<exists>user\<in>set users. \<forall>k. k \<noteq> ''_id'' \<longrightarrow> ident k = user k"
proof -
  from assms obtain i user
    where "find_one_id users i = Some user" and "str_id repr user = Inr ident"
    by (auto simp: verify_token_def split: sum.splits option.splits if_splits)
  then show ?thesis
    using find_one_id_Some[of users i user]
    by (auto simp: str_id_def split: option.splits)
qed

lemma registered_user_has_no_id:
  assumes "register hashpw K now salt new_id users name email password role = Inr (users', tok, view)"
  shows "\<exists>user. users' = users @ [user] \<and> user ''id'' = None \<and> user ''role'' = Some (VStr role)"
  using register_success(3)[OF assms] by simp

lemma check_ownership_or_admin_no_id:
  "current_user ''role'' = Some r \<Longrightarrow> r \<noteq> VStr ''admin'' \<Longrightarrow> current_user ''id'' = None \<Longrightarrow>
     check_ownership_or_admin repr current_user book = Inl (KeyError ''id'')"
  by (simp add: check_ownership_or_admin_def)

lemma check_ownership_or_admin_admin:
  "current_user ''role'' = Some (VStr ''admin'') \<Longrightarrow>
     check_ownership_or_admin repr current_user book = Inr ()"
  by (simp add: check_ownership_or_admin_def)

lemma check_ownership_or_admin_with_id:
  "current_user ''role'' = Some r \<Longrightarrow> r \<noteq> VStr ''admin'' \<Longrightarrow> current_user ''id'' = Some uid \<Longrightarrow>
     check_ownership_or_admin repr current_user book =
       (if VStr (py_str repr (dict_get book ''sellerId'' VNone)) \<noteq> uid
        then Inl (HTTPException 403 ''Not authorized'') else Inr ())"
  by (simp add: check_ownership_or_admin_def)

lemma delete_book_no_id:
  assumes "id_filter short book_id = Inr i" and "find_one_id books i = Some book"
    and "current_user ''role'' = Some r" and "r \<noteq> VStr ''admin''" and "current_user ''id'' = None"
  shows "delete_book short repr books book_id current_user = Inl (KeyError ''id'')"
  using assms by (simp add: delete_book_def and_then_def check_ownership_or_admin_def)

lemma update_book_no_id:
  assumes "id_filter short book_id = Inr i" and "find_one_id books i = Some book"
    and "current_user ''role'' = Some r" and "r \<noteq> VStr ''admin''" and "current_user ''id'' = None"
  shows "update_book short repr books book_id title author price category condition description
           status image_file current_user = Inl (KeyError ''id'')"
  using assms by (simp add: update_book_def and_then_def check_ownership_or_admin_def)

lemma delete_book_admin:
  assumes "id_filter short book_id = Inr i" and "find_one_id books i = Some book"
    and "current_user ''role'' = Some (VStr ''admin'')"
  shows "delete_book short repr books book_id current_user =
           Inr (delete_one books i, ''Book deleted successfully'')"
  using assms by (simp add: delete_book_def and_then_def check_ownership_or_admin_def)

lemma delete_book_forbidden:
  assumes "id_filter short book_id = Inr i" and "find_one_id books i = Some book"
    and "current_user ''role'' = Some r" and "r \<noteq> VStr ''admin''"
    and "current_user ''id'' = Some uid"
    and "uid \<noteq> VStr (py_str repr (dict_get book ''sellerId'' VNone))"
  shows "delete_book short repr books book_id current_user = Inl (HTTPException 403 ''Not authorized'')"
  using assms by (auto simp add: delete_book_def and_then_def check_ownership_or_admin_def)

lemma update_data_of_id:
  "update_data_of title author price category condition description status image_file ''_id'' = None"
  by (simp add: update_data_of_def set_if_truthy_def Let_def split: option.splits)

lemma update_book_admin:
  assumes "id_filter short book_id = Inr i" and "find_one_id books i = Some book"
    and "current_user ''role'' = Some (VStr ''admin'')"
  shows "update_book short repr books book_id title author price category condition description
           status image_file current_user =
         Inr (update_one books i
                (update_data_of title author price category condition description status image_file),
              (book ++ update_data_of title author price category condition description status
                 image_file)(''_id'' \<mapsto> VStr (str_oid i)))"
proof -
  let ?u = "update_data_of title author price category condition description status image_file"
  have f: "find_one_id (update_one books i ?u) i = Some (book ++ ?u)"
    using assms(2) update_data_of_id by (rule find_one_id_update_one)
  have "(book ++ ?u) ''_id'' = Some (VOid i)"
    using find_one_id_Some[OF assms(2)] update_data_of_id
    by (simp add: map_add_def)
  then have "str_id repr (book ++ ?u) = Inr ((book ++ ?u)(''_id'' \<mapsto> VStr (str_oid i)))"
    by (simp add: str_id_def)
  then show ?thesis
    using assms f
    by (simp add: update_book_def and_then_def Let_def check_ownership_or_admin_def)
qed

lemma upload_book_no_id:
  "current_user ''id'' = None \<Longrightarrow>
     upload_book now new_id books title author price category condition description isbn
       image_file current_user = Inl (KeyError ''id'')"
  by (simp add: upload_book_def)

lemma upload_book_with_id:
  assumes "current_user ''id'' = Some uid" and "current_user ''email'' = Some e"
    and "current_user ''name'' = Some n" and "find_one_id books new_id = None"
  shows "\<exists>books' book. upload_book now new_id books title author price category condition
           description isbn image_file current_user = Inr (books', book) \<and>
         book ''sellerId'' = Some uid \<and> book ''status'' = Some (VStr ''active'') \<and>
         book ''_id'' = Some (VStr (str_oid new_id)) \<and>
         find_one_id books' new_id = Some (book(''_id'' \<mapsto> VOid new_id))"
  using assms find_one_id_append_new[of books new_id]
  by (simp add: upload_book_def insert_one_def Let_def)

lemma identity_example:
  "ex_identity_bob ''role'' = Some (VStr ''user'')" "ex_identity_bob ''id'' = None"
  by (simp_all add: ex_identity_bob_def ex_user_bob_def)

lemma book_example:
  "id_filter ex_c_encoder ''0123456789abcdef00000035'' = Inr (Oid ''0123456789abcdef00000035'')"
  "find_one_id [ex_book_mid] (Oid ''0123456789abcdef00000035'') = Some ex_book_mid"
  by (simp_all add: id_filter_def wire_def ObjectId_def hex_space_def hex_digit_def lower_hex_def find_one_id_def
      ex_book_mid_def)

text \<open>
  C1. A user registered with the role \<^verbatim>\<open>user\<close> presents its token; the identity that
  \<^verbatim>\<open>verify_token\<close> returns is the stored user document, which has the field \<^verbatim>\<open>_id\<close>
  and no field \<^verbatim>\<open>id\<close>. On an existing listing of another seller, \<^verbatim>\<open>delete_book\<close>
  and \<^verbatim>\<open>update_book\<close> raise KeyError on \<^verbatim>\<open>current_user["id"]\<close> instead of the 403.
\<close>

theorem non_admin_mutation_raises_key_error:
  "verify_token ex_c_encoder (\<lambda>v. []) ''k'' 1 [ex_user_bob] ex_token_bob = Inr ex_identity_bob \<and>
   find_one_id [ex_book_mid] (Oid ''0123456789abcdef00000035'') = Some ex_book_mid \<and>
   ex_book_mid ''sellerId'' = Some (VStr ''0123456789abcdef000000aa'') \<and>
   ex_identity_bob ''_id'' = Some (VStr ''0123456789abcdef000000bb'') \<and>
   ex_identity_bob ''role'' = Some (VStr ''user'') \<and>
   delete_book ex_c_encoder (\<lambda>v. []) [ex_book_mid] ''0123456789abcdef00000035'' ex_identity_bob =
     Inl (KeyError ''id'') \<and>
   update_book ex_c_encoder (\<lambda>v. []) [ex_book_mid] ''0123456789abcdef00000035'' (Some ''New title'') None None
     None None None None None ex_identity_bob = Inl (KeyError ''id'')"
proof -
  have r: "VStr ''user'' \<noteq> VStr ''admin''"
    by simp
  have s: "ex_book_mid ''sellerId'' = Some (VStr ''0123456789abcdef000000aa'')"
    by (simp add: ex_book_mid_def)
  have i: "ex_identity_bob ''_id'' = Some (VStr ''0123456789abcdef000000bb'')"
    by (simp add: ex_identity_bob_def)
  have d: "delete_book ex_c_encoder (\<lambda>v. []) [ex_book_mid] ''0123456789abcdef00000035'' ex_identity_bob =
     Inl (KeyError ''id'')"
    using book_example identity_example(1) r identity_example(2) by (rule delete_book_no_id)
  have u: "update_book ex_c_encoder (\<lambda>v. []) [ex_book_mid] ''0123456789abcdef00000035'' (Some ''New title'')
     None None None None None None None ex_identity_bob = Inl (KeyError ''id'')"
    using book_example identity_example(1) r identity_example(2) by (rule update_book_no_id)
  show ?thesis
    using verify_token_example book_example(2) s i identity_example(1) d u by simp
qed

text \<open>
  C2. The same authenticated user creates a listing with valid fields: the dictionary
  display of \<^verbatim>\<open>upload_book\<close> reads \<^verbatim>\<open>current_user["id"]\<close>, which the identity does not
  have, so the call raises KeyError and nothing is stored.
\<close>

theorem upload_book_raises_key_error:
  "verify_token ex_c_encoder (\<lambda>v. []) ''k'' 1 [ex_user_bob] ex_token_bob = Inr ex_identity_bob \<and>
   upload_book 1 (Oid ''0123456789abcdef00000036'') [] ''Algebra I'' ''XYZ Press'' 15 ''Math''
     ''good'' None None None ex_identity_bob = Inl (KeyError ''id'')"
  using verify_token_example identity_example(2) by (simp add: upload_book_no_id)

end
